theory Spec2Isabelle
  imports Complex_Main
begin

chapter \<open>Authentication and ledger engine of the Steam top-up bot (bot2.py)\<close>

text \<open>
  A shallow embedding of the security and ledger code of \<^verbatim>\<open>src/bot2.py\<close>.
  Conventions used throughout:

  \<^item> A Python \<^verbatim>\<open>str\<close> is a \<^typ>\<open>string\<close>; one \<^typ>\<open>char\<close> stands for one code point,
    so the model covers the code points below 256. \<^verbatim>\<open>len\<close> is \<^const>\<open>length\<close>.
  \<^item> A raised exception is the \<open>Inl\<close> branch of a sum; the messages of the source are
    Russian text, so every message is a constructor named after what it says.
  \<^item> State that a method mutates (\<^verbatim>\<open>self.rate_limits\<close>, the database) is passed in and
    returned.
  \<^item> Wall-clock reads (\<^verbatim>\<open>time.time()\<close>, SQLite's \<^verbatim>\<open>datetime('now')\<close>) are a parameter
    \<open>now\<close> of the operation.
  \<^item> Collaborators that are not part of the file (Argon2, Fernet) are parameters, and so
    are the failures that come from outside the program (the database, the network).
  \<^item> Where the file defines a method twice in one class body, the model follows the later
    definition, which is the one that the class keeps; a method that the file calls and
    defines nowhere raises \<^verbatim>\<open>AttributeError\<close> at the call.
\<close>

section \<open>Exceptions\<close>

text \<open>\<^verbatim>\<open>class ErrorCode(Enum)\<close>, lines 265-287.\<close>

datatype ErrorCode =
    DATABASE_CONNECTION_ERROR | INVALID_INPUT | RATE_LIMIT_EXCEEDED | SECURITY_VIOLATION
  | TRANSACTION_FAILED | DATABASE_ERROR | USERNAME_EXISTS | WEAK_PASSWORD | USER_NOT_FOUND
  | ACCOUNT_LOCKED | AUTH_FAILED | INVALID_MFA_CODE | PAYMENT_FAILED | WITHDRAWAL_FAILED
  | INSUFFICIENT_FUNDS | PERMISSION_DENIED | AUTH_REQUIRED | OPERATION_LIMIT | INVALID_AMOUNT
  | INVALID_WALLET | UNKNOWN_ERROR

text \<open>
  The messages that \<^verbatim>\<open>SecurityException\<close> is raised with in the modelled methods. The
  two length messages carry the bound that the f-string prints.
\<close>

datatype security_message =
    PasswordTooShort nat
  | PasswordTooLong nat
  | PasswordNeedsUpper
  | PasswordNeedsLower
  | PasswordNeedsDigit
  | PasswordNeedsSpecial
  | PasswordTooCommon
  | PasswordHasRepeats
  | PasswordHasSequences
  | HashCreationFailed
  | EncryptionFailed
  | DecryptionInvalidToken
  | DecryptionFailed

datatype exn =
    SecurityException security_message
  | BotError ErrorCode
  | ValueError string
  | OSError string
  | SqliteError string
  | TelegramError string
  | AttributeError string

section \<open>Regular expressions of the password checks\<close>

text \<open>
  Each \<^verbatim>\<open>re.search\<close> of the source is one of three shapes: a character class, an
  alternation of literal words, or the back-reference pattern \<^verbatim>\<open>(.)\1{2,}\<close>.
\<close>

definition in_range :: "char \<Rightarrow> char \<Rightarrow> char \<Rightarrow> bool" where
  "in_range lo hi c = (of_char lo \<le> (of_char c :: nat) \<and> (of_char c :: nat) \<le> of_char hi)"

definition is_upper :: "char \<Rightarrow> bool" where
  "is_upper c = in_range (CHR ''A'') (CHR ''Z'') c"

definition is_lower :: "char \<Rightarrow> bool" where
  "is_lower c = in_range (CHR ''a'') (CHR ''z'') c"

text \<open>\<^verbatim>\<open>\d\<close>: below code point 256 the decimal digits are \<^verbatim>\<open>0\<close> to \<^verbatim>\<open>9\<close>.\<close>

definition is_digit :: "char \<Rightarrow> bool" where
  "is_digit c = in_range (CHR ''0'') (CHR ''9'') c"

text \<open>The class \<^verbatim>\<open>[!@#$%^&*(),.?":{}|<>]\<close> of \<^verbatim>\<open>_validate_password_policy\<close>.\<close>

definition policy_specials :: string where
  "policy_specials = [CHR ''!'', CHR ''@'', CHR ''#'', CHR ''$'', CHR ''%'', CHR ''^'', CHR ''&'',
     CHR ''*'', CHR ''('', CHR '')'', CHR '','', CHR ''.'', CHR ''?'', CHR 0x22, CHR '':'',
     CHR ''{'', CHR ''}'', CHR ''|'', CHR ''<'', CHR ''>'']"

definition is_policy_special :: "char \<Rightarrow> bool" where
  "is_policy_special c = (c \<in> set policy_specials)"

text \<open>The class \<^verbatim>\<open>[^A-Za-z0-9]\<close> of \<^verbatim>\<open>check_password_strength\<close>.\<close>

definition is_non_alnum :: "char \<Rightarrow> bool" where
  "is_non_alnum c = (\<not> is_upper c \<and> \<not> is_lower c \<and> \<not> is_digit c)"

text \<open>\<^verbatim>\<open>re.search\<close> of a one-character class: some character is in the class.\<close>

definition search_class :: "(char \<Rightarrow> bool) \<Rightarrow> string \<Rightarrow> bool" where
  "search_class cls s = list_ex cls s"

fun starts_with :: "string \<Rightarrow> string \<Rightarrow> bool" where
  "starts_with [] s = True"
| "starts_with (w # ws) [] = False"
| "starts_with (w # ws) (c # cs) = (w = c \<and> starts_with ws cs)"

text \<open>\<^verbatim>\<open>re.search\<close> of a literal word: the word starts at some position.\<close>

fun search_word :: "string \<Rightarrow> string \<Rightarrow> bool" where
  "search_word w [] = starts_with w []"
| "search_word w (c # cs) = (starts_with w (c # cs) \<or> search_word w cs)"

text \<open>\<^verbatim>\<open>re.search\<close> of an alternation \<^verbatim>\<open>w1|w2|...\<close> of literal words.\<close>

definition search_words :: "string list \<Rightarrow> string \<Rightarrow> bool" where
  "search_words ws s = list_ex (\<lambda>w. search_word w s) ws"

text \<open>
  \<^verbatim>\<open>re.search(r'(.)\1{2,}', s)\<close>: three equal characters in a row. Without the
  \<^verbatim>\<open>DOTALL\<close> flag the dot does not match a line feed.
\<close>

fun search_repeat :: "string \<Rightarrow> bool" where
  "search_repeat (a # b # c # cs) =
     ((a \<noteq> CHR 0x0A \<and> a = b \<and> b = c) \<or> search_repeat (b # c # cs))"
| "search_repeat _ = False"

text \<open>\<^verbatim>\<open>123|234|345|456|567|678|789|890\<close>\<close>

definition numeric_sequences :: "string list" where
  "numeric_sequences = [''123'', ''234'', ''345'', ''456'', ''567'', ''678'', ''789'', ''890'']"

text \<open>\<^verbatim>\<open>qwer|wert|erty|rtyu|tyui|yuio|uiop\<close>\<close>

definition keyboard_sequences :: "string list" where
  "keyboard_sequences = [''qwer'', ''wert'', ''erty'', ''rtyu'', ''tyui'', ''yuio'', ''uiop'']"

text \<open>
  \<^verbatim>\<open>str.lower()\<close> on code points below 256: the letters A-Z and the Latin-1 capitals
  (192-222 without the multiplication sign 215) move up by 32.
\<close>

definition lower_char :: "char \<Rightarrow> char" where
  "lower_char c =
     (let n = (of_char c :: nat)
      in if (65 \<le> n \<and> n \<le> 90) \<or> (192 \<le> n \<and> n \<le> 222 \<and> n \<noteq> 215)
         then char_of (n + 32) else c)"

definition lower :: "string \<Rightarrow> string" where
  "lower s = map lower_char s"

section \<open>Password policy (\<^verbatim>\<open>Security._validate_password_policy\<close>, \<^verbatim>\<open>hash_password\<close>)\<close>

text \<open>The dict \<^verbatim>\<open>self.password_policy\<close> of \<^verbatim>\<open>Security.__init__\<close>.\<close>

record password_policy =
  min_length :: nat
  max_length :: nat
  require_upper :: bool
  require_lower :: bool
  require_digit :: bool
  require_special :: bool
  block_common :: bool
  block_repeats :: bool
  block_sequences :: bool

text \<open>
  The policy that \<^verbatim>\<open>Security.__init__\<close> builds from \<^verbatim>\<open>config.PASSWORD_MIN_LENGTH\<close>
  (lines 833-843).
\<close>

definition init_password_policy :: "nat \<Rightarrow> password_policy" where
  "init_password_policy PASSWORD_MIN_LENGTH =
     \<lparr> min_length = max 12 PASSWORD_MIN_LENGTH, max_length = 128,
       require_upper = True, require_lower = True, require_digit = True,
       require_special = True, block_common = True, block_repeats = True,
       block_sequences = True \<rparr>"

text \<open>\<^verbatim>\<open>_get_default_common_passwords\<close>, lines 900-912.\<close>

definition default_common_passwords :: "string set" where
  "default_common_passwords =
     {''password'', ''123456'', ''qwerty'', ''admin'', ''welcome'',
      ''12345678'', ''111111'', ''sunshine'', ''iloveyou'', ''password1'',
      ''admin123'', ''letmein'', ''monkey'', ''football'', ''123123'',
      ''123456789'', ''1234567890'', ''12345'', ''1234'', ''1234567'',
      ''dragon'', ''baseball'', ''abc123'', ''superman'', ''master'',
      ''trustno1'', ''access'', ''flower'', ''hello'', ''solo'',
      ''secret'', ''mustang'', ''michael'', ''shadow'', ''jennifer'',
      ''jordan'', ''1111'', ''asdfgh'', ''123qwe'', ''qwerty123'',
      ''1q2w3e4r'', ''qwertyuiop'', ''passw0rd'', ''starwars'', ''freedom''}"

text \<open>
  \<^verbatim>\<open>_validate_password_policy\<close>, lines 995-1032. The set \<open>common\<close> is
  \<^verbatim>\<open>self.common_passwords\<close>, loaded from a file or the default set. The argument is a
  string by its type, so the \<^verbatim>\<open>isinstance\<close> test has no branch here. Returning
  normally is \<open>Inr ()\<close>.
\<close>

definition validate_password_policy ::
  "password_policy \<Rightarrow> string set \<Rightarrow> string \<Rightarrow> exn + unit" where
  "validate_password_policy pol common password =
     (if length password < min_length pol then
        Inl (SecurityException (PasswordTooShort (min_length pol)))
      else if length password > max_length pol then
        Inl (SecurityException (PasswordTooLong (max_length pol)))
      else if require_upper pol \<and> \<not> search_class is_upper password then
        Inl (SecurityException PasswordNeedsUpper)
      else if require_lower pol \<and> \<not> search_class is_lower password then
        Inl (SecurityException PasswordNeedsLower)
      else if require_digit pol \<and> \<not> search_class is_digit password then
        Inl (SecurityException PasswordNeedsDigit)
      else if require_special pol \<and> \<not> search_class is_policy_special password then
        Inl (SecurityException PasswordNeedsSpecial)
      else if block_common pol \<and> lower password \<in> common then
        Inl (SecurityException PasswordTooCommon)
      else if block_repeats pol \<and> search_repeat password then
        Inl (SecurityException PasswordHasRepeats)
      else if block_sequences pol \<and>
              (search_words numeric_sequences password \<or>
               search_words keyboard_sequences (lower password)) then
        Inl (SecurityException PasswordHasSequences)
      else Inr ())"

text \<open>
  The Argon2 primitive \<^verbatim>\<open>self.password_hasher.hash\<close>: it returns a digest or raises
  \<^verbatim>\<open>HashingError\<close>. The salt is drawn inside the primitive, so the parameter stands for
  one run of it.
\<close>

datatype hasher_result = Digest string | HashingError

text \<open>
  \<^verbatim>\<open>hash_password\<close>, lines 985-993. The second component lists the arguments with
  which the primitive was invoked, in order: the empty list says that it was not invoked.
\<close>

definition hash_password ::
  "password_policy \<Rightarrow> string set \<Rightarrow> (string \<Rightarrow> hasher_result) \<Rightarrow> string
     \<Rightarrow> (exn + string) \<times> string list" where
  "hash_password pol common password_hasher_hash password =
     (case validate_password_policy pol common password of
        Inl e \<Rightarrow> (Inl e, [])
      | Inr _ \<Rightarrow>
          (case password_hasher_hash password of
             Digest d \<Rightarrow> (Inr d, [password])
           | HashingError \<Rightarrow> (Inl (SecurityException HashCreationFailed), [password])))"

text \<open>
  The rules of the policy, in the order of the specification (section 4.1), each with
  the condition under which a password violates it and the message it is rejected
  with. \<open>spec_validate\<close> rejects with the first violated rule of \<open>rule_order\<close>; it is the
  reading of the specification that \<open>validate_password_policy\<close> is compared with.
\<close>

datatype policy_rule =
    MinLength | MaxLength | NeedsUpper | NeedsLower | NeedsDigit | NeedsSpecial
  | NotCommon | NoRepeats | NoSequences

definition rule_order :: "policy_rule list" where
  "rule_order = [MinLength, MaxLength, NeedsUpper, NeedsLower, NeedsDigit, NeedsSpecial,
     NotCommon, NoRepeats, NoSequences]"

fun rule_violated :: "password_policy \<Rightarrow> string set \<Rightarrow> string \<Rightarrow> policy_rule \<Rightarrow> bool" where
  "rule_violated pol common pw MinLength = (length pw < min_length pol)"
| "rule_violated pol common pw MaxLength = (max_length pol < length pw)"
| "rule_violated pol common pw NeedsUpper =
     (require_upper pol \<and> \<not> list_ex (\<lambda>c. c \<in> set ''ABCDEFGHIJKLMNOPQRSTUVWXYZ'') pw)"
| "rule_violated pol common pw NeedsLower =
     (require_lower pol \<and> \<not> list_ex (\<lambda>c. c \<in> set ''abcdefghijklmnopqrstuvwxyz'') pw)"
| "rule_violated pol common pw NeedsDigit =
     (require_digit pol \<and> \<not> list_ex (\<lambda>c. c \<in> set ''0123456789'') pw)"
| "rule_violated pol common pw NeedsSpecial =
     (require_special pol \<and> \<not> list_ex (\<lambda>c. c \<in> set policy_specials) pw)"
| "rule_violated pol common pw NotCommon = (block_common pol \<and> lower pw \<in> common)"
| "rule_violated pol common pw NoRepeats =
     (block_repeats pol \<and>
      list_ex (\<lambda>i. pw ! i \<noteq> CHR 0x0A \<and> pw ! (i + 1) = pw ! i \<and> pw ! (i + 2) = pw ! i)
        [0 ..< length pw - 2])"
| "rule_violated pol common pw NoSequences =
     (block_sequences pol \<and>
      (list_ex (\<lambda>w. search_word w pw) numeric_sequences \<or>
       list_ex (\<lambda>w. search_word w (lower pw)) keyboard_sequences))"

fun rule_message :: "password_policy \<Rightarrow> policy_rule \<Rightarrow> security_message" where
  "rule_message pol MinLength = PasswordTooShort (min_length pol)"
| "rule_message pol MaxLength = PasswordTooLong (max_length pol)"
| "rule_message pol NeedsUpper = PasswordNeedsUpper"
| "rule_message pol NeedsLower = PasswordNeedsLower"
| "rule_message pol NeedsDigit = PasswordNeedsDigit"
| "rule_message pol NeedsSpecial = PasswordNeedsSpecial"
| "rule_message pol NotCommon = PasswordTooCommon"
| "rule_message pol NoRepeats = PasswordHasRepeats"
| "rule_message pol NoSequences = PasswordHasSequences"

definition spec_validate :: "password_policy \<Rightarrow> string set \<Rightarrow> string \<Rightarrow> exn + unit" where
  "spec_validate pol common pw =
     (case find (rule_violated pol common pw) rule_order of
        None \<Rightarrow> Inr ()
      | Some r \<Rightarrow> Inl (SecurityException (rule_message pol r)))"

text \<open>
  The specification speaks of a ``known keyboard/numeric sequence of length at least
  4''. \<open>has_known_sequence n s\<close> says that \<open>n\<close> consecutive characters of \<open>s\<close>,
  lower-cased, are consecutive on the digit row or on the top letter row of the
  keyboard.
\<close>

definition windows :: "nat \<Rightarrow> string \<Rightarrow> string list" where
  "windows n s = map (\<lambda>i. take n (drop i s)) [0 ..< Suc (length s) - n]"

definition has_known_sequence :: "nat \<Rightarrow> string \<Rightarrow> bool" where
  "has_known_sequence n s =
     list_ex (\<lambda>w. search_word w ''1234567890'' \<or> search_word w ''qwertyuiop'')
       (windows n (lower s))"

section \<open>Password strength (\<^verbatim>\<open>Security.check_password_strength\<close>)\<close>

text \<open>The entries that the method appends to \<^verbatim>\<open>result['issues']\<close>.\<close>

datatype strength_issue =
    IssueTooShort nat
  | IssueTooLong nat
  | IssueNoUpper
  | IssueNoLower
  | IssueNoDigit
  | IssueNoSpecial
  | IssueCommon
  | IssueRepeats
  | IssueNumericSequence
  | IssueLetterSequence

text \<open>The dict that the method returns. The entropy is a Python float, here a real.\<close>

record strength_result =
  pw_length :: nat
  strength :: nat
  entropy :: real
  issues :: "strength_issue list"

text \<open>
  \<^verbatim>\<open>check_password_strength\<close>, lines 1340-1408. The method has no \<^verbatim>\<open>raise\<close> and calls
  nothing that raises on a string (\<^verbatim>\<open>math.log2\<close> is only applied to a positive
  \<^verbatim>\<open>char_set\<close>), so the model returns the dict itself.
\<close>

definition check_password_strength ::
  "password_policy \<Rightarrow> string set \<Rightarrow> string \<Rightarrow> strength_result" where
  "check_password_strength pol common password =
     (let length_issues =
            (if length password < min_length pol then [IssueTooShort (min_length pol)]
             else if length password > max_length pol then [IssueTooLong (max_length pol)]
             else []);
          has_upper = search_class is_upper password;
          has_lower = search_class is_lower password;
          has_digit = search_class is_digit password;
          has_special = search_class is_non_alnum password;
          class_issues =
            (if \<not> has_upper \<and> require_upper pol then [IssueNoUpper] else []) @
            (if \<not> has_lower \<and> require_lower pol then [IssueNoLower] else []) @
            (if \<not> has_digit \<and> require_digit pol then [IssueNoDigit] else []) @
            (if \<not> has_special \<and> require_special pol then [IssueNoSpecial] else []);
          char_set = (if has_upper then 26 else 0) + (if has_lower then 26 else 0) +
                     (if has_digit then 10 else 0) + (if has_special then 32 else (0::nat));
          e = (if char_set > 0 then real (length password) * log 2 (real char_set) else 0);
          by_entropy = (if e < 30 then 1 else if e < 50 then 2 else if e < 70 then 3
                        else if e < 100 then 4 else (5::nat));
          is_common = (lower password \<in> common)
      in \<lparr> pw_length = length password,
           strength = (if is_common then 1 else by_entropy),
           entropy = e,
           issues = length_issues @ class_issues @
             (if is_common then [IssueCommon] else []) @
             (if search_repeat password then [IssueRepeats] else []) @
             (if search_words numeric_sequences password then [IssueNumericSequence] else []) @
             (if search_words keyboard_sequences (lower password)
              then [IssueLetterSequence] else []) \<rparr>)"

section \<open>Rate limiter (\<^verbatim>\<open>Security.check_rate_limit\<close>)\<close>

text \<open>
  The entries of \<^verbatim>\<open>self.rate_limits\<close>: the dict \<^verbatim>\<open>{'count': ..., 'timestamp': ...}\<close>.
  Values of \<^verbatim>\<open>time.time()\<close> are floats, here reals.
\<close>

record rate_entry =
  count :: int
  timestamp :: real

text \<open>
  The dict that \<^verbatim>\<open>log_security_event\<close> appends to \<^verbatim>\<open>self.security_events\<close>. Its
  \<^verbatim>\<open>'timestamp'\<close> (a clock read of its own) and its constant \<^verbatim>\<open>'ip': None\<close> are left out.
\<close>

record security_event =
  event_type :: string
  severity :: string
  event_user_id :: "int option"
  details :: string

text \<open>The mutable fields of a \<^verbatim>\<open>Security\<close> object that the modelled methods touch.\<close>

record security =
  rate_limits :: "string \<rightharpoonup> rate_entry"
  lockout_tracker :: "string \<rightharpoonup> real"
  security_events :: "security_event list"

text \<open>The fields as \<^verbatim>\<open>Security.__init__\<close> and \<^verbatim>\<open>_init_monitoring\<close> set them.\<close>

definition init_security :: security where
  "init_security =
     \<lparr> rate_limits = Map.empty, lockout_tracker = Map.empty, security_events = [] \<rparr>"

text \<open>
  \<^verbatim>\<open>log_security_event\<close>, lines 1317-1334: the details are cut after 500 characters,
  the event is appended. The calls of \<^verbatim>\<open>logging\<close> (also the one in \<^verbatim>\<open>alert_admins\<close>)
  change no field.
\<close>

definition log_security_event ::
  "security \<Rightarrow> string \<Rightarrow> string \<Rightarrow> string \<Rightarrow> int option \<Rightarrow> security" where
  "log_security_event s ev_type ev_details ev_severity uid =
     (let truncated_details =
            (if length ev_details > 500 then take 500 ev_details @ ''...'' else ev_details)
      in s\<lparr> security_events := security_events s @
               [\<lparr> event_type = ev_type, severity = ev_severity, event_user_id = uid,
                  details = truncated_details \<rparr>] \<rparr>)"

text \<open>The f-string \<^verbatim>\<open>f"{identifier}_{action}"\<close>.\<close>

definition rate_key :: "string \<Rightarrow> string \<Rightarrow> string" where
  "rate_key identifier action = identifier @ ''_'' @ action"

text \<open>
  \<^verbatim>\<open>check_rate_limit\<close>, lines 1166-1203. \<open>now\<close> is the value of \<^verbatim>\<open>time.time()\<close>. The
  result is the returned flag and the object after the call.
\<close>

definition check_rate_limit ::
  "security \<Rightarrow> real \<Rightarrow> string \<Rightarrow> string \<Rightarrow> int \<Rightarrow> int \<Rightarrow> bool \<times> security" where
  "check_rate_limit s now identifier action max_attempts period =
     (let key = rate_key identifier action;
          locked = (case lockout_tracker s key of
                      Some lockout_time \<Rightarrow> now - lockout_time < real_of_int period
                    | None \<Rightarrow> False);
          s1 = s\<lparr> lockout_tracker := (lockout_tracker s)(key := None) \<rparr>
      in if locked then (False, s)
         else
           (case rate_limits s1 key of
              None \<Rightarrow>
                (True, s1\<lparr> rate_limits :=
                   (rate_limits s1)(key \<mapsto> \<lparr> count = 1, timestamp = now \<rparr>) \<rparr>)
            | Some e \<Rightarrow>
                if now - timestamp e > real_of_int period then
                  (True, s1\<lparr> rate_limits :=
                     (rate_limits s1)(key \<mapsto> \<lparr> count = 1, timestamp = now \<rparr>) \<rparr>)
                else
                  (let s2 = s1\<lparr> rate_limits :=
                              (rate_limits s1)(key \<mapsto> e\<lparr> count := count e + 1 \<rparr>) \<rparr>
                   in if count e + 1 > max_attempts then
                        (False,
                         log_security_event
                           (s2\<lparr> lockout_tracker := (lockout_tracker s2)(key \<mapsto> now) \<rparr>)
                           ''rate_limit_exceeded''
                           (''Action: '' @ action @ '', Identifier: '' @ identifier)
                           ''high'' None)
                      else (True, s2))))"

text \<open>
  Consecutive calls for one key at the given times, as a caller makes them: the flags
  in order and the object after the last call.
\<close>

fun check_rate_limit_calls ::
  "security \<Rightarrow> real list \<Rightarrow> string \<Rightarrow> string \<Rightarrow> int \<Rightarrow> int \<Rightarrow> bool list \<times> security" where
  "check_rate_limit_calls s [] identifier action max_attempts period = ([], s)"
| "check_rate_limit_calls s (t # ts) identifier action max_attempts period =
     (let r = check_rate_limit s t identifier action max_attempts period;
          rest = check_rate_limit_calls (snd r) ts identifier action max_attempts period
      in (fst r # fst rest, snd rest))"

section \<open>Password verification (\<^verbatim>\<open>Security.verify_password\<close>)\<close>

text \<open>
  One run of \<^verbatim>\<open>self.password_hasher.verify\<close> followed by \<^verbatim>\<open>check_needs_rehash\<close>: the
  password matches (with the answer of \<^verbatim>\<open>check_needs_rehash\<close>), or
  \<^verbatim>\<open>VerifyMismatchError\<close> is raised (with the seconds that passed on the monotonic clock),
  or \<^verbatim>\<open>InvalidHash\<close>, or another exception (each with its text).
\<close>

datatype verify_outcome =
    Verified bool
  | VerifyMismatch real
  | InvalidHash string
  | VerifyError string

text \<open>
  \<^verbatim>\<open>_detect_bruteforce_attempt\<close>, lines 1071-1085. The details of the source also print
  the time with six decimals.
\<close>

definition detect_bruteforce_attempt :: "security \<Rightarrow> real \<Rightarrow> security" where
  "detect_bruteforce_attempt s verification_time =
     (let s1 = (if verification_time < 0.1 then
                  log_security_event s ''suspicious_verification_speed''
                    ''Password verification too fast'' ''high'' None
                else s)
      in if verification_time > 1.0 then
           log_security_event s1 ''suspicious_verification_speed''
             ''Password verification too slow'' ''high'' None
         else s1)"

text \<open>\<^verbatim>\<open>verify_password\<close>, lines 1034-1069.\<close>

definition verify_password ::
  "(string \<Rightarrow> string \<Rightarrow> verify_outcome) \<Rightarrow> security \<Rightarrow> string \<Rightarrow> string \<Rightarrow> bool \<times> security" where
  "verify_password password_hasher_verify s password stored_hash =
     (if password = [] \<or> stored_hash = [] then (False, s)
      else
        (case password_hasher_verify stored_hash password of
           Verified needs_rehash \<Rightarrow>
             (True,
              if needs_rehash then
                log_security_event s ''password_rehash_needed''
                  ''Password hash needs rehashing'' ''medium'' None
              else s)
         | VerifyMismatch elapsed \<Rightarrow> (False, detect_bruteforce_attempt s elapsed)
         | InvalidHash msg \<Rightarrow>
             (False,
              log_security_event s ''invalid_hash_format''
                (''Invalid hash format during verification: '' @ msg) ''high'' None)
         | VerifyError msg \<Rightarrow>
             (False,
              log_security_event s ''password_verification_error''
                (''Unexpected error: '' @ msg) ''critical'' None)))"

section \<open>The database\<close>

text \<open>
  The tables of \<^verbatim>\<open>Database._create_tables\<close> (lines 433-511) with the columns that the
  modelled code reads or writes. The money columns are declared \<^verbatim>\<open>DECIMAL(15, 2)\<close>, which
  in SQLite is numeric affinity: they hold the floats that the code binds, and a float is
  modelled by the real number that it denotes. Sums of floats are rounded, so every
  addition goes through the environment's float addition. Timestamps are whole seconds, as
  SQLite's \<^verbatim>\<open>datetime('now')\<close>.
  \<^verbatim>\<open>failed_login_attempts\<close> is a natural number by its \<^verbatim>\<open>CHECK\<close> constraint.
\<close>

datatype tx_status = pending | processing | completed | failed | canceled

datatype tx_kind = deposit | withdrawal | admin_adjustment

record user_row =
  username :: string
  password_hash :: string
  is_active :: bool
  last_login :: "int option"
  failed_login_attempts :: nat
  mfa_secret :: "string option"
  balance :: real

record transaction_row =
  transaction_id :: string
  tx_user_id :: int
  amount :: real
  status :: tx_status
  tx_type :: tx_kind
  created_at :: int
  completed_at :: "int option"
  wallet_address :: "string option"

record session_row =
  session_id :: string
  session_user_id :: int
  token :: string
  ip_address :: string
  expires_at :: int

record audit_row =
  audit_user_id :: "int option"
  action_type :: string
  action_details :: string

record database =
  users :: "int \<rightharpoonup> user_row"
  transactions :: "transaction_row list"
  sessions :: "session_row list"
  audit_log :: "audit_row list"

text \<open>\<^verbatim>\<open>Database.log_audit\<close>, lines 653-662.\<close>

definition log_audit :: "database \<Rightarrow> int option \<Rightarrow> string \<Rightarrow> string \<Rightarrow> database" where
  "log_audit d uid a_type a_details =
     d\<lparr> audit_log := audit_log d @
          [\<lparr> audit_user_id = uid, action_type = a_type, action_details = a_details \<rparr>] \<rparr>"

text \<open>An \<^verbatim>\<open>UPDATE users SET ... WHERE user_id = ?\<close>: no row, no change.\<close>

definition update_user_row :: "database \<Rightarrow> int \<Rightarrow> (user_row \<Rightarrow> user_row) \<Rightarrow> database" where
  "update_user_row d uid f =
     (case users d uid of
        None \<Rightarrow> d
      | Some u \<Rightarrow> d\<lparr> users := (users d)(uid \<mapsto> f u) \<rparr>)"

section \<open>Login (\<^verbatim>\<open>MainBot._authenticate_existing_user\<close>)\<close>

text \<open>
  What the bot holds while it serves a login: the database, the \<^verbatim>\<open>Security\<close> object, and
  the passwords that were handed to \<^verbatim>\<open>verify_password\<close> so far (kept to tell whether a
  password was verified at all).
\<close>

record bot =
  db :: database
  sec :: security
  verified_passwords :: "string list"

text \<open>
  One incoming password message: its text, the time, and the random session id and
  token that \<^verbatim>\<open>secrets\<close> would produce for a session.
\<close>

record login_attempt =
  att_text :: string
  att_now :: int
  att_session_id :: string
  att_token :: string

text \<open>
  How the method ends when it does not raise: it asks for the second-factor code (state
  \<^verbatim>\<open>AUTH_MFA_CODE\<close>). For an account without a second factor the method goes on to read
  \<^verbatim>\<open>message.connection\<close>, an attribute that a message does not have, and raises
  \<^verbatim>\<open>AttributeError\<close> there, before the session is inserted.
\<close>

datatype auth_result = MfaCodeRequested

text \<open>
  \<^verbatim>\<open>_authenticate_existing_user\<close>, lines 5136-5216. \<open>MAX_LOGIN_ATTEMPTS\<close> is
  \<^verbatim>\<open>self.config.MAX_LOGIN_ATTEMPTS\<close>. The \<^verbatim>\<open>BotError\<close> is modelled by its code; the
  replies that are sent to the chat are not part of the state.
\<close>

definition authenticate_existing_user ::
  "int \<Rightarrow> (string \<Rightarrow> string \<Rightarrow> verify_outcome) \<Rightarrow> bot \<Rightarrow> int \<Rightarrow> login_attempt
     \<Rightarrow> (exn + auth_result) \<times> bot" where
  "authenticate_existing_user MAX_LOGIN_ATTEMPTS password_hasher_verify b user_id att =
     (case users (db b) user_id of
        None \<Rightarrow> (Inl (BotError USER_NOT_FOUND), b)
      | Some user \<Rightarrow>
          if int (failed_login_attempts user) \<ge> MAX_LOGIN_ATTEMPTS then
            (Inl (BotError ACCOUNT_LOCKED), b)
          else
            (let v = verify_password password_hasher_verify (sec b) (att_text att)
                       (password_hash user);
                 b1 = b\<lparr> sec := snd v,
                         verified_passwords := verified_passwords b @ [att_text att] \<rparr>
             in if \<not> fst v then
                  (let b2 = b1\<lparr> db := update_user_row (db b1) user_id
                                  (\<lambda>u. u\<lparr> failed_login_attempts := failed_login_attempts u + 1 \<rparr>) \<rparr>;
                       attempts = int (failed_login_attempts user) + 1;
                       remaining = MAX_LOGIN_ATTEMPTS - attempts
                   in if remaining \<le> 0 then
                        (Inl (BotError ACCOUNT_LOCKED),
                         b2\<lparr> db := update_user_row (db b2) user_id
                                      (\<lambda>u. u\<lparr> is_active := False \<rparr>) \<rparr>)
                      else (Inl (BotError AUTH_FAILED), b2))
                else
                  (let b2 = b1\<lparr> db := update_user_row (db b1) user_id
                                  (\<lambda>u. u\<lparr> failed_login_attempts := 0,
                                          last_login := Some (att_now att) \<rparr>) \<rparr>
                   in if mfa_secret user \<noteq> None \<and> mfa_secret user \<noteq> Some [] then
                        (Inr MfaCodeRequested, b2)
                      else (Inl (AttributeError ''connection''), b2))))"

text \<open>The bot after a series of password messages for one account.\<close>

definition login_attempts ::
  "int \<Rightarrow> (string \<Rightarrow> string \<Rightarrow> verify_outcome) \<Rightarrow> bot \<Rightarrow> int \<Rightarrow> login_attempt list \<Rightarrow> bot" where
  "login_attempts MAX_LOGIN_ATTEMPTS password_hasher_verify b user_id atts =
     foldl (\<lambda>b' att. snd (authenticate_existing_user MAX_LOGIN_ATTEMPTS password_hasher_verify
                             b' user_id att)) b atts"

section \<open>Symmetric cipher (\<^verbatim>\<open>Security.encrypt_data\<close>, \<^verbatim>\<open>decrypt_data\<close>)\<close>

text \<open>
  The methods compose library calls: \<^verbatim>\<open>json.dumps\<close>, \<^verbatim>\<open>str.encode('utf-8')\<close>,
  \<^verbatim>\<open>bytes.decode('utf-8')\<close>, \<^verbatim>\<open>base64.urlsafe_b64encode\<close>, \<^verbatim>\<open>urlsafe_b64decode\<close> and the
  \<^verbatim>\<open>encrypt\<close> and \<^verbatim>\<open>decrypt\<close> of \<^verbatim>\<open>self.cipher_suite\<close>, the Fernet object built from the
  configured key. The libraries are a parameter of the model. A library call that
  raises returns \<open>Inl\<close>; Fernet's \<^verbatim>\<open>InvalidToken\<close> is told apart from every other
  exception, which carries its text. Fernet draws an initialisation vector and reads
  the clock, which the argument \<open>nonce\<close> stands for.
\<close>

datatype bytes = Bytes string

datatype lib_exception = InvalidToken | OtherException string

record crypto_lib =
  json_dumps :: "(string \<times> string) list \<Rightarrow> string"
  utf8_encode :: "string \<Rightarrow> lib_exception + bytes"
  utf8_decode :: "bytes \<Rightarrow> lib_exception + string"
  urlsafe_b64encode :: "bytes \<Rightarrow> bytes"
  urlsafe_b64decode :: "string \<Rightarrow> lib_exception + bytes"
  cipher_suite_encrypt :: "nat \<Rightarrow> bytes \<Rightarrow> bytes"
  cipher_suite_decrypt :: "bytes \<Rightarrow> lib_exception + bytes"

text \<open>The argument of \<^verbatim>\<open>encrypt_data\<close>, a \<^verbatim>\<open>Union[str, dict]\<close>.\<close>

datatype secret_data = Text string | Dict "(string \<times> string) list"

text \<open>
  \<^verbatim>\<open>encrypt_data\<close>, lines 1134-1144. Every exception inside the \<^verbatim>\<open>try\<close> becomes the
  \<^verbatim>\<open>SecurityException\<close> of the handler.
\<close>

definition encrypt_data :: "crypto_lib \<Rightarrow> nat \<Rightarrow> secret_data \<Rightarrow> exn + string" where
  "encrypt_data L nonce data =
     (let text = (case data of Text t \<Rightarrow> t | Dict d \<Rightarrow> json_dumps L d)
      in case utf8_encode L text of
           Inl e \<Rightarrow> Inl (SecurityException EncryptionFailed)
         | Inr plain \<Rightarrow>
             (case utf8_decode L (urlsafe_b64encode L (cipher_suite_encrypt L nonce plain)) of
                Inl e \<Rightarrow> Inl (SecurityException EncryptionFailed)
              | Inr encoded \<Rightarrow> Inr encoded))"

text \<open>
  The two handlers of \<^verbatim>\<open>decrypt_data\<close>: \<^verbatim>\<open>except InvalidToken\<close> logs at severity high,
  \<^verbatim>\<open>except Exception\<close> at severity critical; both raise a \<^verbatim>\<open>SecurityException\<close>.
\<close>

definition decrypt_handler :: "security \<Rightarrow> lib_exception \<Rightarrow> (exn + string) \<times> security" where
  "decrypt_handler s e =
     (case e of
        InvalidToken \<Rightarrow>
          (Inl (SecurityException DecryptionInvalidToken),
           log_security_event s ''decryption_failed'' ''Invalid token during decryption''
             ''high'' None)
      | OtherException msg \<Rightarrow>
          (Inl (SecurityException DecryptionFailed),
           log_security_event s ''decryption_error'' (''Decryption failed: '' @ msg)
             ''critical'' None))"

text \<open>\<^verbatim>\<open>decrypt_data\<close>, lines 1146-1164.\<close>

definition decrypt_data :: "crypto_lib \<Rightarrow> security \<Rightarrow> string \<Rightarrow> (exn + string) \<times> security" where
  "decrypt_data L s encrypted_data =
     (case urlsafe_b64decode L encrypted_data of
        Inl e \<Rightarrow> decrypt_handler s e
      | Inr encrypted_bytes \<Rightarrow>
          (case cipher_suite_decrypt L encrypted_bytes of
             Inl e \<Rightarrow> decrypt_handler s e
           | Inr plain \<Rightarrow>
               (case utf8_decode L plain of
                  Inl e \<Rightarrow> decrypt_handler s e
                | Inr text \<Rightarrow> (Inr text, s))))"

text \<open>
  What the libraries promise: decoding undoes encoding for UTF-8, for URL-safe base64
  (whose output is ASCII, so it decodes to a string) and for the cipher under one key.
\<close>

definition crypto_lib_sound :: "crypto_lib \<Rightarrow> bool" where
  "crypto_lib_sound L =
     ((\<forall>t b. utf8_encode L t = Inr b \<longrightarrow> utf8_decode L b = Inr t) \<and>
      (\<forall>b. \<exists>t. utf8_decode L (urlsafe_b64encode L b) = Inr t \<and> urlsafe_b64decode L t = Inr b) \<and>
      (\<forall>nonce b. cipher_suite_decrypt L (cipher_suite_encrypt L nonce b) = Inr b))"

text \<open>
  A small library that keeps the promises, for running the model: the encodings are
  the identity, the cipher puts a tag character in front and rejects a token without
  it.
\<close>

definition toy_decrypt :: "bytes \<Rightarrow> lib_exception + bytes" where
  "toy_decrypt b =
     (case b of
        Bytes [] \<Rightarrow> Inl InvalidToken
      | Bytes (c # cs) \<Rightarrow> if c = CHR ''F'' then Inr (Bytes cs) else Inl InvalidToken)"

definition toy_lib :: crypto_lib where
  "toy_lib =
     \<lparr> json_dumps = (\<lambda>d. concat (map (\<lambda>(k, v). k @ '':'' @ v @ '';'') d)),
       utf8_encode = (\<lambda>t. Inr (Bytes t)),
       utf8_decode = (\<lambda>b. case b of Bytes t \<Rightarrow> Inr t),
       urlsafe_b64encode = (\<lambda>b. b),
       urlsafe_b64decode = (\<lambda>t. Inr (Bytes t)),
       cipher_suite_encrypt = (\<lambda>nonce b. case b of Bytes t \<Rightarrow> Bytes (CHR ''F'' # t)),
       cipher_suite_decrypt = toy_decrypt \<rparr>"

section \<open>Configuration (\<^verbatim>\<open>Config.__init__\<close>)\<close>











record Config =
  BOT_TOKEN :: string
  ADMIN_IDS :: "int list"
  APP_NAME :: string
  REDIS_URL :: string
  REDIS_POOL_SIZE :: int
  DB_PATH :: string
  BACKUP_DIR :: string
  LOGS_DIR :: string
  FERNET_KEY :: string
  PASSWORD_MIN_LENGTH :: int
  MAX_LOGIN_ATTEMPTS :: int
  LOCKOUT_TIME :: int
  MIN_PAYMENT :: real
  MAX_PAYMENT :: real
  PAYMENT_COMMISSION :: real
  WITHDRAWAL_FEE :: real
  MAX_WITHDRAWAL :: real
  MAX_MANUAL_BALANCE_CHANGE :: real
  PAYMENT_LIMIT :: int
  PAYMENT_LIMIT_PERIOD :: int
  WITHDRAWAL_LIMIT :: int
  WITHDRAWAL_LIMIT_PERIOD :: int






text \<open>The constructor raises \<^verbatim>\<open>ValueError\<close>.\<close>

definition raises_ValueError :: "exn + 'a \<Rightarrow> bool" where
  "raises_ValueError r =
     (case r of Inl (ValueError k) \<Rightarrow> True | _ \<Rightarrow> False)"



section \<open>The connection and its transactions\<close>

text \<open>
  The bot holds one SQLite connection (\<^verbatim>\<open>Database._connection\<close>), opened by \<^verbatim>\<open>aiosqlite\<close>
  with the defaults of Python's \<^verbatim>\<open>sqlite3\<close>. \<open>live\<close> is what a statement on the connection
  reads and writes, \<open>durable\<close> is the content as of the last commit, and \<open>in_transaction\<close>
  says whether a transaction is open. The rules of the library that the model follows:
  \<^item> a data-changing statement outside a transaction first opens one;
  \<^item> a statement that raises changes no table and leaves the transaction open;
  \<^item> \<^verbatim>\<open>Connection.commit()\<close> makes the changes durable and closes the transaction, and does
    nothing when none is open;
  \<^item> the statement \<^verbatim>\<open>BEGIN\<close> raises inside a transaction, and the statements \<^verbatim>\<open>COMMIT\<close> and
    \<^verbatim>\<open>ROLLBACK\<close> raise outside one.
\<close>

record connection =
  live :: database
  durable :: database
  in_transaction :: bool

text \<open>
  A coroutine of the bot: it runs on the connection and either returns or raises, and in both
  cases leaves a connection behind.
\<close>

type_synonym 'a io = "connection \<Rightarrow> (exn + 'a) \<times> connection"

definition io_return :: "'a \<Rightarrow> 'a io" where
  "io_return x c = (Inr x, c)"

definition io_raise :: "exn \<Rightarrow> 'a io" where
  "io_raise e c = (Inl e, c)"

definition io_bind :: "'a io \<Rightarrow> ('a \<Rightarrow> 'b io) \<Rightarrow> 'b io" where
  "io_bind m f c = (case m c of (Inl e, c1) \<Rightarrow> (Inl e, c1) | (Inr x, c1) \<Rightarrow> f x c1)"

text \<open>\<^verbatim>\<open>try: m except Exception as e: h(e)\<close>.\<close>

definition io_try :: "'a io \<Rightarrow> (exn \<Rightarrow> 'a io) \<Rightarrow> 'a io" where
  "io_try m h c = (case m c of (Inl e, c1) \<Rightarrow> h e c1 | (Inr x, c1) \<Rightarrow> (Inr x, c1))"

text \<open>\<^verbatim>\<open>for x in xs: body(x)\<close>.\<close>

fun for_each :: "('a \<Rightarrow> unit io) \<Rightarrow> 'a list \<Rightarrow> unit io" where
  "for_each body [] = io_return ()"
| "for_each body (x # xs) = io_bind (body x) (\<lambda>_. for_each body xs)"

text \<open>
  What the code awaits and what may raise there for reasons outside the program (a locked or
  full database, the network): the statements by kind and key, and the message to a user.
  The environment says which of them raise. It also holds the addition of two floats and the
  printing of an amount.
\<close>

datatype action =
    Begin
  | Commit
  | Rollback
  | UpdateTransactionStatus string
  | UpdateBalance int
  | InsertTransaction string
  | InsertAudit
  | SendMessage int

record environment =
  action_fails :: "action \<Rightarrow> bool"
  float_add :: "real \<Rightarrow> real \<Rightarrow> real"
  show_amount :: "real \<Rightarrow> string"

subsection \<open>Statements\<close>

text \<open>
  \<^verbatim>\<open>UPDATE transactions SET status = ?, completed_at = datetime('now') WHERE transaction_id = ?\<close>
\<close>

definition set_transaction_status :: "int \<Rightarrow> string \<Rightarrow> tx_status \<Rightarrow> database \<Rightarrow> exn + database" where
  "set_transaction_status now tid st d =
     Inr (d\<lparr> transactions :=
            map (\<lambda>r. if transaction_id r = tid then r\<lparr> status := st, completed_at := Some now \<rparr> else r)
              (transactions d) \<rparr>)"

text \<open>
  \<^verbatim>\<open>UPDATE users SET balance = balance + ? WHERE user_id = ?\<close> under the column's
  \<^verbatim>\<open>CHECK(balance >= 0)\<close>. The statement \<^verbatim>\<open>balance = balance - ?\<close> is the same with the
  negated amount: subtracting a float is adding its negation.
\<close>

definition add_balance :: "environment \<Rightarrow> int \<Rightarrow> real \<Rightarrow> database \<Rightarrow> exn + database" where
  "add_balance env uid delta d =
     (case users d uid of
        None \<Rightarrow> Inr d
      | Some u \<Rightarrow>
          if float_add env (balance u) delta < 0 then
            Inl (SqliteError ''CHECK constraint failed: balance >= 0'')
          else Inr (d\<lparr> users := (users d)(uid \<mapsto> u\<lparr> balance := float_add env (balance u) delta \<rparr>) \<rparr>))"

text \<open>
  \<^verbatim>\<open>INSERT INTO transactions\<close> under the constraints of the table: the primary key, the
  foreign key to \<^verbatim>\<open>users\<close> (\<^verbatim>\<open>PRAGMA foreign_keys=ON\<close>), \<^verbatim>\<open>CHECK(amount > 0)\<close> and the two
  length checks that an input can fail.
\<close>

definition insert_transaction :: "transaction_row \<Rightarrow> database \<Rightarrow> exn + database" where
  "insert_transaction r d =
     (if transaction_id r \<in> set (map transaction_id (transactions d)) then
        Inl (SqliteError ''UNIQUE constraint failed: transactions.transaction_id'')
      else if length (transaction_id r) > 64 then
        Inl (SqliteError ''CHECK constraint failed: LENGTH(transaction_id) <= 64'')
      else if amount r \<le> 0 then
        Inl (SqliteError ''CHECK constraint failed: amount > 0'')
      else if (case wallet_address r of None \<Rightarrow> False | Some w \<Rightarrow> length w > 50) then
        Inl (SqliteError ''CHECK constraint failed: LENGTH(wallet_address) <= 50'')
      else if users d (tx_user_id r) = None then
        Inl (SqliteError ''FOREIGN KEY constraint failed'')
      else Inr (d\<lparr> transactions := transactions d @ [r] \<rparr>))"

text \<open>\<^verbatim>\<open>INSERT INTO audit_log\<close>.\<close>

definition insert_audit :: "int option \<Rightarrow> string \<Rightarrow> string \<Rightarrow> database \<Rightarrow> exn + database" where
  "insert_audit uid a_type a_details d = Inr (log_audit d uid a_type a_details)"

text \<open>
  A data-changing statement on the connection or on one of its cursors (\<^verbatim>\<open>tx.execute\<close> inside
  a transaction block): it raises the library's error and commits nothing.
\<close>

definition cursor_execute :: "environment \<Rightarrow> action \<Rightarrow> (database \<Rightarrow> exn + database) \<Rightarrow> unit io" where
  "cursor_execute env a stmt c =
     (if action_fails env a then
        (Inl (SqliteError ''operational error''), c\<lparr> in_transaction := True \<rparr>)
      else case stmt (live c) of
             Inl e \<Rightarrow> (Inl e, c\<lparr> in_transaction := True \<rparr>)
           | Inr d \<Rightarrow> (Inr (), c\<lparr> live := d, in_transaction := True \<rparr>))"

text \<open>\<^verbatim>\<open>Connection.commit()\<close>.\<close>

definition connection_commit :: "environment \<Rightarrow> unit io" where
  "connection_commit env c =
     (if action_fails env Commit then (Inl (SqliteError ''operational error''), c)
      else if in_transaction c then (Inr (), c\<lparr> durable := live c, in_transaction := False \<rparr>)
      else (Inr (), c))"

text \<open>
  \<^verbatim>\<open>Database.execute\<close> (lines 558-567) as every modelled caller uses it, with a data-changing
  statement and \<^verbatim>\<open>commit=True\<close>: any exception of the statement or of the commit becomes
  \<^verbatim>\<open>BotError(DATABASE_ERROR)\<close>.
\<close>

definition execute :: "environment \<Rightarrow> action \<Rightarrow> (database \<Rightarrow> exn + database) \<Rightarrow> unit io" where
  "execute env a stmt =
     io_try (io_bind (cursor_execute env a stmt) (\<lambda>_. connection_commit env))
       (\<lambda>e. io_raise (BotError DATABASE_ERROR))"

text \<open>\<^verbatim>\<open>Database.update_transaction_status\<close>, lines 645-651.\<close>

definition update_transaction_status :: "environment \<Rightarrow> int \<Rightarrow> string \<Rightarrow> tx_status \<Rightarrow> unit io" where
  "update_transaction_status env now tid st =
     execute env (UpdateTransactionStatus tid) (set_transaction_status now tid st)"

text \<open>\<^verbatim>\<open>Database.log_audit\<close> (lines 653-662) on the connection.\<close>

definition db_log_audit :: "environment \<Rightarrow> int option \<Rightarrow> string \<Rightarrow> string \<Rightarrow> unit io" where
  "db_log_audit env uid a_type a_details =
     execute env InsertAudit (insert_audit uid a_type a_details)"

text \<open>\<^verbatim>\<open>bot.send_message\<close> and \<^verbatim>\<open>message.answer\<close>: they touch no table.\<close>

definition send_message :: "environment \<Rightarrow> int \<Rightarrow> unit io" where
  "send_message env uid c =
     (if action_fails env (SendMessage uid) then (Inl (TelegramError ''request failed''), c)
      else (Inr (), c))"

text \<open>The statements \<^verbatim>\<open>BEGIN\<close>, \<^verbatim>\<open>COMMIT\<close> and \<^verbatim>\<open>ROLLBACK\<close> on the cursor of a transaction block.\<close>

definition sql_begin :: "environment \<Rightarrow> unit io" where
  "sql_begin env c =
     (if action_fails env Begin then (Inl (SqliteError ''operational error''), c)
      else if in_transaction c then
        (Inl (SqliteError ''cannot start a transaction within a transaction''), c)
      else (Inr (), c\<lparr> in_transaction := True \<rparr>))"

definition sql_commit :: "environment \<Rightarrow> unit io" where
  "sql_commit env c =
     (if action_fails env Commit then (Inl (SqliteError ''operational error''), c)
      else if in_transaction c then (Inr (), c\<lparr> durable := live c, in_transaction := False \<rparr>)
      else (Inl (SqliteError ''cannot commit - no transaction is active''), c))"

definition sql_rollback :: "environment \<Rightarrow> unit io" where
  "sql_rollback env c =
     (if action_fails env Rollback then (Inl (SqliteError ''operational error''), c)
      else if in_transaction c then (Inr (), c\<lparr> live := durable c, in_transaction := False \<rparr>)
      else (Inl (SqliteError ''cannot rollback - no transaction is active''), c))"

text \<open>
  \<^verbatim>\<open>async with self.db.transaction()\<close> (\<^verbatim>\<open>DatabaseTransaction\<close>, lines 695-733).
  \<^verbatim>\<open>__aenter__\<close> executes \<^verbatim>\<open>BEGIN\<close>. \<^verbatim>\<open>__aexit__\<close> executes \<^verbatim>\<open>ROLLBACK\<close> when the body raised,
  and the body's exception goes on to the caller; otherwise it executes \<^verbatim>\<open>COMMIT\<close>. When
  that statement of \<^verbatim>\<open>__aexit__\<close> raises, the handler tries \<^verbatim>\<open>ROLLBACK\<close>, only logs a failure
  of it, and raises \<^verbatim>\<open>BotError(DATABASE_ERROR)\<close>.
\<close>

definition transaction_block :: "environment \<Rightarrow> 'a io \<Rightarrow> 'a io" where
  "transaction_block env body =
     io_bind (sql_begin env)
       (\<lambda>_ c0.
          case body c0 of
            (Inl e, c1) \<Rightarrow>
              (case sql_rollback env c1 of
                 (Inr u, c2) \<Rightarrow> (Inl e, c2)
               | (Inl e', c2) \<Rightarrow> (Inl (BotError DATABASE_ERROR), snd (sql_rollback env c2)))
          | (Inr x, c1) \<Rightarrow>
              (case sql_commit env c1 of
                 (Inr u, c2) \<Rightarrow> (Inr x, c2)
               | (Inl e', c2) \<Rightarrow> (Inl (BotError DATABASE_ERROR), snd (sql_rollback env c2))))"

section \<open>Ledger operations\<close>

subsection \<open>Crediting a deposit (\<^verbatim>\<open>MainBot._task_payment_processing\<close>)\<close>

text \<open>
  \<^verbatim>\<open>PaymentSystem.check_payment_status\<close>. The class body defines the method twice, and the
  second definition (lines 3765-3767), which answers \<^verbatim>\<open>"completed"\<close> for every payment, is the
  one that the class keeps.
\<close>

definition check_payment_status :: "string \<Rightarrow> tx_status" where
  "check_payment_status tid = completed"

text \<open>
  One turn of the loop of \<^verbatim>\<open>_task_payment_processing\<close>, lines 4071-4098: the rows are read
  first, then each is handled inside its own \<^verbatim>\<open>try\<close>, whose handler only logs.
\<close>

definition pending_payments :: "int \<Rightarrow> database \<Rightarrow> transaction_row list" where
  "pending_payments now d =
     filter (\<lambda>r. status r = pending \<and> created_at r > now - 86400) (transactions d)"

definition process_payment :: "environment \<Rightarrow> int \<Rightarrow> transaction_row \<Rightarrow> unit io" where
  "process_payment env now payment =
     io_try
       (if check_payment_status (transaction_id payment) \<noteq> status payment then
          io_bind
            (update_transaction_status env now (transaction_id payment)
               (check_payment_status (transaction_id payment)))
            (\<lambda>_. if check_payment_status (transaction_id payment) = completed then
                    io_bind
                      (execute env (UpdateBalance (tx_user_id payment))
                         (add_balance env (tx_user_id payment) (amount payment)))
                      (\<lambda>_. send_message env (tx_user_id payment))
                  else io_return ())
        else io_return ())
       (\<lambda>e. io_return ())"

definition task_payment_processing :: "environment \<Rightarrow> int \<Rightarrow> unit io" where
  "task_payment_processing env now c =
     for_each (process_payment env now) (pending_payments now (live c)) c"

subsection \<open>Withdrawing (\<^verbatim>\<open>MainBot._process_withdraw_wallet\<close>)\<close>

text \<open>
  \<^verbatim>\<open>self.payment.create_withdrawal\<close>: \<^verbatim>\<open>self.payment\<close> is a \<^verbatim>\<open>PaymentSystem\<close>, and neither
  body of that class defines the method (line 4751 is the only place of the file that
  names it), so reading the attribute raises \<^verbatim>\<open>AttributeError\<close>. The handler expects a
  dictionary with these keys.
\<close>

record withdrawal_info =
  wd_transaction_id :: string
  fee :: real
  net_amount :: real

definition create_withdrawal :: "int \<Rightarrow> real \<Rightarrow> string \<Rightarrow> withdrawal_info option io" where
  "create_withdrawal user_id amt wallet = io_raise (AttributeError ''create_withdrawal'')"

text \<open>
  The transaction block of \<^verbatim>\<open>_process_withdraw_wallet\<close>, lines 4750-4794, which the handler
  enters once the wallet address has passed \<^verbatim>\<open>validate_wallet_address\<close>. The result is the
  transaction id; the handler passes an exception to \<^verbatim>\<open>_handle_error\<close>.
\<close>

definition process_withdraw_wallet :: "environment \<Rightarrow> int \<Rightarrow> int \<Rightarrow> real \<Rightarrow> string \<Rightarrow> string io" where
  "process_withdraw_wallet env now user_id amt wallet =
     transaction_block env
       (io_bind (create_withdrawal user_id amt wallet)
          (\<lambda>wd.
             case wd of
               None \<Rightarrow> io_raise (BotError WITHDRAWAL_FAILED)
             | Some w \<Rightarrow>
                 io_bind
                   (cursor_execute env (UpdateBalance user_id) (add_balance env user_id (- amt)))
                 (\<lambda>_. io_bind
                         (cursor_execute env (InsertTransaction (wd_transaction_id w))
                            (insert_transaction
                               \<lparr> transaction_id = wd_transaction_id w, tx_user_id = user_id,
                                 amount = amt, status = processing, tx_type = withdrawal,
                                 created_at = now, completed_at = None,
                                 wallet_address = Some wallet \<rparr>))
                 (\<lambda>_. io_bind (send_message env user_id)
                 (\<lambda>_. io_bind
                         (db_log_audit env (Some user_id) ''withdrawal_created''
                            (''Amount: '' @ show_amount env amt @ '', Wallet: '' @ wallet))
                 (\<lambda>_. io_return (wd_transaction_id w)))))))"

subsection \<open>Reconciliation (\<^verbatim>\<open>MainBot._task_check_pending_transactions\<close>)\<close>

text \<open>One turn of the loop, lines 4156-4179: rows created more than an hour ago.\<close>

definition is_stuck :: "int \<Rightarrow> transaction_row \<Rightarrow> bool" where
  "is_stuck now r = ((status r = pending \<or> status r = processing) \<and> created_at r < now - 3600)"

definition stuck_transactions :: "int \<Rightarrow> database \<Rightarrow> transaction_row list" where
  "stuck_transactions now d = filter (is_stuck now) (transactions d)"

definition fail_stuck :: "environment \<Rightarrow> int \<Rightarrow> transaction_row \<Rightarrow> unit io" where
  "fail_stuck env now tx =
     io_try
       (io_bind (update_transaction_status env now (transaction_id tx) failed)
          (\<lambda>_. if tx_type tx = withdrawal then
                  execute env (UpdateBalance (tx_user_id tx))
                    (add_balance env (tx_user_id tx) (amount tx))
                else io_return ()))
       (\<lambda>e. io_return ())"

definition task_check_pending_transactions :: "environment \<Rightarrow> int \<Rightarrow> unit io" where
  "task_check_pending_transactions env now c =
     for_each (fail_stuck env now) (stuck_transactions now (live c)) c"

subsection \<open>A small ledger\<close>

text \<open>
  One user with 100.00 rubles: with no transactions, and with one deposit of 50.00 that
  awaits its confirmation. Two environments: one in which nothing fails, and one in which
  the statement that changes the balance of user 1 raises. The sums of the examples are
  floats, so the float addition is the addition.
\<close>

definition demo_env :: environment where
  "demo_env =
     \<lparr> action_fails = (\<lambda>a. False), float_add = (\<lambda>x y. x + y), show_amount = (\<lambda>a. ''40.00'') \<rparr>"

definition failing_env :: environment where
  "failing_env = demo_env\<lparr> action_fails := (\<lambda>a. a = UpdateBalance 1) \<rparr>"

definition demo_user :: user_row where
  "demo_user =
     \<lparr> username = ''alice'', password_hash = ''$argon2id$'', is_active = True, last_login = None,
       failed_login_attempts = 0, mfa_secret = None, balance = 100 \<rparr>"

definition demo_db :: database where
  "demo_db = \<lparr> users = [1 \<mapsto> demo_user], transactions = [], sessions = [], audit_log = [] \<rparr>"

definition demo_connection :: connection where
  "demo_connection = \<lparr> live = demo_db, durable = demo_db, in_transaction = False \<rparr>"

definition demo_wallet :: string where
  "demo_wallet = ''1A1zP1eP5QGefi2DMPTfTL5SLmv7DivfNa''"

definition deposit_row :: transaction_row where
  "deposit_row =
     \<lparr> transaction_id = ''pay_1'', tx_user_id = 1, amount = 50, status = pending,
       tx_type = deposit, created_at = 0, completed_at = None, wallet_address = None \<rparr>"

definition deposit_db :: database where
  "deposit_db = demo_db\<lparr> transactions := [deposit_row] \<rparr>"

definition deposit_connection :: connection where
  "deposit_connection = \<lparr> live = deposit_db, durable = deposit_db, in_transaction = False \<rparr>"

subsection \<open>A turn of the reconciliation loop in which nothing fails\<close>

text \<open>No awaited action raises.\<close>

definition fault_free :: "environment \<Rightarrow> bool" where
  "fault_free env = (\<forall>a. action_fails env a = False)"

text \<open>A row after \<^verbatim>\<open>update_transaction_status(id, 'failed')\<close> at time \<open>now\<close>.\<close>

definition mark_failed :: "int \<Rightarrow> transaction_row \<Rightarrow> transaction_row" where
  "mark_failed now r = r\<lparr> status := failed, completed_at := Some now \<rparr>"

text \<open>The amounts of a user's stuck withdrawals, in the order of the rows.\<close>

definition refunds :: "int \<Rightarrow> database \<Rightarrow> int \<Rightarrow> real list" where
  "refunds now d uid =
     map amount
       (filter (\<lambda>r. tx_type r = withdrawal \<and> tx_user_id r = uid) (stuck_transactions now d))"

text \<open>What one turn of the loop does to the tables when no action raises.\<close>

definition fail_stuck_tables :: "environment \<Rightarrow> int \<Rightarrow> transaction_row \<Rightarrow> database \<Rightarrow> database" where
  "fail_stuck_tables env now tx d =
     (let d1 = d\<lparr> transactions :=
                  map (\<lambda>r. if transaction_id r = transaction_id tx then mark_failed now r else r)
                    (transactions d) \<rparr>
      in if tx_type tx = withdrawal then
           (case users d (tx_user_id tx) of
              None \<Rightarrow> d1
            | Some u \<Rightarrow>
                if float_add env (balance u) (amount tx) < 0 then d1
                else d1\<lparr> users := (users d)(tx_user_id tx \<mapsto>
                                     u\<lparr> balance := float_add env (balance u) (amount tx) \<rparr>) \<rparr>)
         else d1)"

text \<open>
  Tables with a withdrawal that is stuck: user 1 has 60.00 and a \<^verbatim>\<open>processing\<close> withdrawal
  of 40.00 that was created at time 0.
\<close>

definition stuck_db :: database where
  "stuck_db =
     \<lparr> users = [1 \<mapsto> demo_user\<lparr> balance := 60 \<rparr>],
       transactions =
         [\<lparr> transaction_id = ''wd_1'', tx_user_id = 1, amount = 40, status = processing,
            tx_type = withdrawal, created_at = 0, completed_at = None,
            wallet_address = Some demo_wallet \<rparr>],
       sessions = [], audit_log = [] \<rparr>"

definition stuck_connection :: connection where
  "stuck_connection = \<lparr> live = stuck_db, durable = stuck_db, in_transaction = False \<rparr>"

section \<open>Verified properties\<close>

subsection \<open>Password policy\<close>

text \<open>The character classes and the back-reference pattern, characterised without the
  functions that implement them.\<close>

lemma in_range_enum:
  "in_range lo hi c = (c \<in> set (map char_of [of_char lo ..< Suc (of_char hi :: nat)]))"
proof
  assume "in_range lo hi c"
  then have "(of_char c :: nat) \<in> set [of_char lo ..< Suc (of_char hi)]"
    unfolding in_range_def by (simp only: set_upt atLeastLessThan_iff less_Suc_eq_le)
  then have "char_of (of_char c :: nat) \<in> char_of ` set [of_char lo ..< Suc (of_char hi :: nat)]"
    by (rule imageI)
  then show "c \<in> set (map char_of [of_char lo ..< Suc (of_char hi :: nat)])" by simp
next
  assume "c \<in> set (map char_of [of_char lo ..< Suc (of_char hi :: nat)])"
  then obtain n :: nat where n: "of_char lo \<le> n" "n \<le> of_char hi" "c = char_of n"
    by auto
  have "n < 256" using n(2) by (rule le_less_trans) simp
  then have "(of_char (char_of n :: char) :: nat) = n" by simp
  with n show "in_range lo hi c" by (simp add: in_range_def)
qed

lemma is_upper_iff: "is_upper c = (c \<in> set ''ABCDEFGHIJKLMNOPQRSTUVWXYZ'')"
proof -
  have "map char_of [of_char (CHR ''A'') ..< Suc (of_char (CHR ''Z'') :: nat)] =
          ''ABCDEFGHIJKLMNOPQRSTUVWXYZ''"
    by code_simp
  then show ?thesis by (simp only: is_upper_def in_range_enum)
qed

lemma is_lower_iff: "is_lower c = (c \<in> set ''abcdefghijklmnopqrstuvwxyz'')"
proof -
  have "map char_of [of_char (CHR ''a'') ..< Suc (of_char (CHR ''z'') :: nat)] =
          ''abcdefghijklmnopqrstuvwxyz''"
    by code_simp
  then show ?thesis by (simp only: is_lower_def in_range_enum)
qed

lemma is_digit_iff: "is_digit c = (c \<in> set ''0123456789'')"
proof -
  have "map char_of [of_char (CHR ''0'') ..< Suc (of_char (CHR ''9'') :: nat)] = ''0123456789''"
    by code_simp
  then show ?thesis by (simp only: is_digit_def in_range_enum)
qed

lemma ex_nat_split: "(\<exists>i. Q i) = (Q 0 \<or> (\<exists>i. Q (Suc i)))" for Q :: "nat \<Rightarrow> bool"
proof
  assume "\<exists>i. Q i"
  then obtain i where "Q i" ..
  then show "Q 0 \<or> (\<exists>i. Q (Suc i))" by (cases i) auto
next
  assume "Q 0 \<or> (\<exists>i. Q (Suc i))"
  then show "\<exists>i. Q i" by auto
qed

lemma search_repeat_iff:
  "search_repeat pw =
     (\<exists>i. i + 2 < length pw \<and> pw ! i \<noteq> CHR 0x0A \<and> pw ! (i + 1) = pw ! i \<and> pw ! (i + 2) = pw ! i)"
proof (induction pw rule: search_repeat.induct)
  case (1 a b c cs)
  show ?case
    by (subst ex_nat_split) (use 1 in auto)
qed auto

lemma search_repeat_upt:
  "search_repeat pw =
     list_ex (\<lambda>i. pw ! i \<noteq> CHR 0x0A \<and> pw ! (i + 1) = pw ! i \<and> pw ! (i + 2) = pw ! i)
       [0 ..< length pw - 2]"
  unfolding search_repeat_iff list_ex_iff
proof -
  let ?P = "\<lambda>i. pw ! i \<noteq> CHR 0x0A \<and> pw ! (i + 1) = pw ! i \<and> pw ! (i + 2) = pw ! i"
  have "i + 2 < length pw \<longleftrightarrow> i \<in> set [0 ..< length pw - 2]" for i by auto
  then show "(\<exists>i. i + 2 < length pw \<and> ?P i) = (\<exists>i\<in>set [0 ..< length pw - 2]. ?P i)"
    by blast
qed

lemma rule_violated_code:
  "rule_violated pol common pw NeedsUpper = (require_upper pol \<and> \<not> search_class is_upper pw)"
  "rule_violated pol common pw NeedsLower = (require_lower pol \<and> \<not> search_class is_lower pw)"
  "rule_violated pol common pw NeedsDigit = (require_digit pol \<and> \<not> search_class is_digit pw)"
  "rule_violated pol common pw NeedsSpecial =
     (require_special pol \<and> \<not> search_class is_policy_special pw)"
  "rule_violated pol common pw NoRepeats = (block_repeats pol \<and> search_repeat pw)"
  "rule_violated pol common pw NoSequences =
     (block_sequences pol \<and>
      (search_words numeric_sequences pw \<or> search_words keyboard_sequences (lower pw)))"
  by (simp_all only: rule_violated.simps search_class_def search_words_def
      is_upper_iff [abs_def] is_lower_iff [abs_def] is_digit_iff [abs_def]
      is_policy_special_def [abs_def] search_repeat_upt)


lemma find_case_Cons:
  "(case find P (x # xs) of None \<Rightarrow> a | Some r \<Rightarrow> f r) =
     (if P x then f x else (case find P xs of None \<Rightarrow> a | Some r \<Rightarrow> f r))"
  by simp

text \<open>
  Claim C5. For every password shorter than the configured minimum length,
  \<^verbatim>\<open>hash_password\<close> raises the \<^verbatim>\<open>SecurityException\<close> of the length rule, and the Argon2
  primitive is not invoked, whatever the policy flags, the common-password set and the
  primitive are.
\<close>

theorem hash_password_short_raises:
  assumes "length password < min_length pol"
  shows "hash_password pol common password_hasher_hash password =
           (Inl (SecurityException (PasswordTooShort (min_length pol))), [])"
  using assms by (simp add: hash_password_def validate_password_policy_def)

theorem hash_password_short_raises_witness:
  "length ''Ab1!'' < min_length (init_password_policy 8) \<and>
   hash_password (init_password_policy 8) default_common_passwords (\<lambda>p. Digest p) ''Ab1!'' =
     (Inl (SecurityException (PasswordTooShort 12)), [])"
proof -
  have short: "length ''Ab1!'' < min_length (init_password_policy 8)"
    by (simp add: init_password_policy_def)
  have "min_length (init_password_policy 8) = 12"
    by (simp add: init_password_policy_def)
  with short hash_password_short_raises [OF short, of default_common_passwords "\<lambda>p. Digest p"]
  show ?thesis by simp
qed

text \<open>
  Claim C8 (as amended). \<^verbatim>\<open>_validate_password_policy\<close> checks the rules in the order
  minimum length, maximum length, upper-case, lower-case, digit, special character,
  common password (on the lower-cased password), three equal characters in a row,
  sequences; it raises for the first rule of that order that the password violates and
  returns normally when there is none. The sequence rule is violated by one of the eight
  digit triples 123, 234, ..., 890 or, after lower-casing, by one of the seven four-letter
  runs qwer, ..., uiop of the top keyboard row.
\<close>

theorem validate_password_policy_first_violated:
  "validate_password_policy pol common pw =
     (case find (rule_violated pol common pw) rule_order of
        None \<Rightarrow> Inr ()
      | Some r \<Rightarrow> Inl (SecurityException (rule_message pol r)))"
  unfolding rule_order_def validate_password_policy_def
  by (simp only: find_case_Cons find.simps(1) option.case rule_message.simps
        rule_violated_code rule_violated.simps(1,2,7))

theorem validate_password_policy_first_violated_witness:
  "validate_password_policy (init_password_policy 12) default_common_passwords
     ''Xy!mnbvcz1a2b'' = Inr () \<and>
   find (rule_violated (init_password_policy 12) default_common_passwords ''Xy!mnbvcz1a2b'')
     rule_order = None"
proof -
  have "validate_password_policy (init_password_policy 12) default_common_passwords
          ''Xy!mnbvcz1a2b'' = Inr ()"
    by code_simp
  with validate_password_policy_first_violated
         [of "init_password_policy 12" default_common_passwords "''Xy!mnbvcz1a2b''"]
  show ?thesis by (simp split: option.splits)
qed

text \<open>
  The claim as stated says that only sequences of length at least 4 are rejected. The
  password \<^verbatim>\<open>Xy!mnbvcz123\<close> passes every earlier rule, has no four consecutive
  characters that are consecutive on the digit row or the top letter row, and is rejected
  by the sequence rule for the digit triple 123.
\<close>

theorem digit_triple_rejected_counterexample:
  "validate_password_policy (init_password_policy 12) default_common_passwords
     ''Xy!mnbvcz123'' = Inl (SecurityException PasswordHasSequences) \<and>
   \<not> has_known_sequence 4 ''Xy!mnbvcz123''"
  by code_simp

subsection \<open>Password strength\<close>

text \<open>
  Claim C10. For every string, the empty string and strings outside the length bounds
  included, \<^verbatim>\<open>check_password_strength\<close> returns a result whose strength is one of 1, 2, 3,
  4, 5, whose length field is the length of the string, and which carries the list of
  issues. The function has no raising branch.
\<close>

theorem check_password_strength_range:
  "strength (check_password_strength pol common pw) \<in> {1, 2, 3, 4, 5} \<and>
   pw_length (check_password_strength pol common pw) = length pw"
  by (simp add: check_password_strength_def Let_def)

theorem check_password_strength_range_witness:
  "check_password_strength (init_password_policy 12) default_common_passwords [] =
     \<lparr> pw_length = 0, strength = 1, entropy = 0,
       issues = [IssueTooShort 12, IssueNoUpper, IssueNoLower, IssueNoDigit, IssueNoSpecial] \<rparr> \<and>
   strength (check_password_strength (init_password_policy 12) default_common_passwords [])
     \<in> {1, 2, 3, 4, 5}"
proof -
  have "check_password_strength (init_password_policy 12) default_common_passwords [] =
     \<lparr> pw_length = 0, strength = 1, entropy = 0,
       issues = [IssueTooShort 12, IssueNoUpper, IssueNoLower, IssueNoDigit, IssueNoSpecial] \<rparr>"
    by (simp add: check_password_strength_def Let_def init_password_policy_def
          search_class_def default_common_passwords_def lower_def search_words_def
          numeric_sequences_def keyboard_sequences_def)
  with check_password_strength_range [of "init_password_policy 12" default_common_passwords "[]"]
  show ?thesis by simp
qed

subsection \<open>Rate limiter\<close>

lemma crl_locked:
  assumes "lockout_tracker s (rate_key i a) = Some tlock" "now - tlock < real_of_int p"
  shows "check_rate_limit s now i a m p = (False, s)"
  using assms by (simp add: check_rate_limit_def Let_def)

lemma crl_fresh:
  assumes "lockout_tracker s (rate_key i a) = None" "rate_limits s (rate_key i a) = None"
  shows "fst (check_rate_limit s now i a m p) = True"
    and "rate_limits (snd (check_rate_limit s now i a m p)) (rate_key i a) = Some \<lparr> count = 1, timestamp = now \<rparr>"
    and "lockout_tracker (snd (check_rate_limit s now i a m p)) (rate_key i a) = None"
  using assms by (simp_all add: check_rate_limit_def Let_def)

lemma crl_within:
  assumes "lockout_tracker s (rate_key i a) = None"
    and "rate_limits s (rate_key i a) = Some \<lparr> count = c, timestamp = t0 \<rparr>"
    and "now - t0 \<le> real_of_int p" and "c + 1 \<le> m"
  shows "fst (check_rate_limit s now i a m p) = True"
    and "rate_limits (snd (check_rate_limit s now i a m p)) (rate_key i a) = Some \<lparr> count = c + 1, timestamp = t0 \<rparr>"
    and "lockout_tracker (snd (check_rate_limit s now i a m p)) (rate_key i a) = None"
  using assms by (simp_all add: check_rate_limit_def Let_def)

lemma crl_exceed:
  assumes "lockout_tracker s (rate_key i a) = None"
    and "rate_limits s (rate_key i a) = Some \<lparr> count = c, timestamp = t0 \<rparr>"
    and "now - t0 \<le> real_of_int p" and "c + 1 > m"
  shows "fst (check_rate_limit s now i a m p) = False"
    and "rate_limits (snd (check_rate_limit s now i a m p)) (rate_key i a) = Some \<lparr> count = c + 1, timestamp = t0 \<rparr>"
    and "lockout_tracker (snd (check_rate_limit s now i a m p)) (rate_key i a) = Some now"
    and "security_events (snd (check_rate_limit s now i a m p)) = security_events s @ 
          [\<lparr> event_type = ''rate_limit_exceeded'', severity = ''high'', event_user_id = None,
             details = (let d = ''Action: '' @ a @ '', Identifier: '' @ i in if length d > 500 then take 500 d @ ''...'' else d) \<rparr>]"
  using assms by (simp_all add: check_rate_limit_def Let_def log_security_event_def)

lemma crl_expired:
  assumes "lockout_tracker s (rate_key i a) = Some tlock" "now - tlock \<ge> real_of_int p"
    and "rate_limits s (rate_key i a) = Some e" "now - timestamp e > real_of_int p"
  shows "fst (check_rate_limit s now i a m p) = True"
    and "rate_limits (snd (check_rate_limit s now i a m p)) (rate_key i a) = Some \<lparr> count = 1, timestamp = now \<rparr>"
    and "lockout_tracker (snd (check_rate_limit s now i a m p)) (rate_key i a) = None"
  using assms by (simp_all add: check_rate_limit_def Let_def)

lemma calls_within:
  assumes "lockout_tracker s (rate_key i a) = None"
    and "rate_limits s (rate_key i a) = Some \<lparr> count = c, timestamp = t0 \<rparr>"
    and "\<forall>t\<in>set ts. t - t0 \<le> real_of_int p" and "c + int (length ts) \<le> m"
  shows "fst (check_rate_limit_calls s ts i a m p) = replicate (length ts) True \<and>
         rate_limits (snd (check_rate_limit_calls s ts i a m p)) (rate_key i a) =
           Some \<lparr> count = c + int (length ts), timestamp = t0 \<rparr> \<and>
         lockout_tracker (snd (check_rate_limit_calls s ts i a m p)) (rate_key i a) = None"
  using assms
proof (induction ts arbitrary: s c)
  case Nil
  then show ?case by simp
next
  case (Cons t ts)
  let ?r = "check_rate_limit s t i a m p"
  have w: "t - t0 \<le> real_of_int p" and le: "c + 1 \<le> m" using Cons.prems by auto
  note st = crl_within [OF Cons.prems(1,2) w le]
  have "fst (check_rate_limit_calls (snd ?r) ts i a m p) = replicate (length ts) True \<and>
         rate_limits (snd (check_rate_limit_calls (snd ?r) ts i a m p)) (rate_key i a) =
           Some \<lparr> count = (c + 1) + int (length ts), timestamp = t0 \<rparr> \<and>
         lockout_tracker (snd (check_rate_limit_calls (snd ?r) ts i a m p)) (rate_key i a) = None"
    using Cons.prems by (intro Cons.IH st) auto
  then show ?case using st(1) by (simp add: Let_def add.assoc)
qed

text \<open>
  Claim C3 (as amended). Take a key that has neither a counter nor a lockout (as in the
  empty state) and let \<open>N\<close> calls, \<open>N \<ge> 1\<close>, be made with \<open>max_attempts = N\<close> at times
  \<open>ts\<close>, none of them more than \<open>period\<close> after the first. All \<open>N\<close> calls return true. A
  further call at \<open>t_over\<close>, still not more than \<open>period\<close> after the first, returns false,
  stores \<open>t_over\<close> as the lockout timestamp and appends one \<^verbatim>\<open>rate_limit_exceeded\<close> event
  of severity high. A call at \<open>t_after\<close>, at least \<open>period\<close> after the lockout and more
  than \<open>period\<close> after the first call, returns true, resets the counter to 1 and clears
  the lockout.
\<close>

theorem check_rate_limit_window:
  assumes fresh: "rate_limits s0 (rate_key identifier action) = None"
      "lockout_tracker s0 (rate_key identifier action) = None"
    and N: "ts \<noteq> []" "int (length ts) = N"
    and window: "\<forall>t\<in>set ts. t - hd ts \<le> real_of_int period"
    and over: "t_over - hd ts \<le> real_of_int period"
    and after: "t_after - t_over \<ge> real_of_int period" "t_after - hd ts > real_of_int period"
  shows "let run = check_rate_limit_calls s0 ts identifier action N period;
             over = check_rate_limit (snd run) t_over identifier action N period;
             after = check_rate_limit (snd over) t_after identifier action N period
         in fst run = replicate (length ts) True \<and>
            fst over = False \<and>
            lockout_tracker (snd over) (rate_key identifier action) = Some t_over \<and>
            (\<exists>d. security_events (snd over) = security_events (snd run) @
                   [\<lparr> event_type = ''rate_limit_exceeded'', severity = ''high'',
                      event_user_id = None, details = d \<rparr>]) \<and>
            fst after = True \<and>
            rate_limits (snd after) (rate_key identifier action) =
              Some \<lparr> count = 1, timestamp = t_after \<rparr> \<and>
            lockout_tracker (snd after) (rate_key identifier action) = None"
proof -
  let ?k = "rate_key identifier action"
  obtain t rest where ts: "ts = t # rest" using N(1) by (cases ts) auto
  let ?first = "check_rate_limit s0 t identifier action N period"
  let ?run = "check_rate_limit_calls s0 (t # rest) identifier action N period"
  let ?tail = "check_rate_limit_calls (snd ?first) rest identifier action N period"
  let ?over = "check_rate_limit (snd ?run) t_over identifier action N period"
  let ?after = "check_rate_limit (snd ?over) t_after identifier action N period"
  note first = crl_fresh [OF fresh(2) fresh(1), of t N period]
  have w: "\<forall>u\<in>set rest. u - t \<le> real_of_int period" using window ts by simp
  have len: "1 + int (length rest) \<le> N" using N(2) ts by simp
  have tail: "fst ?tail = replicate (length rest) True \<and>
      rate_limits (snd ?tail) ?k = Some \<lparr> count = 1 + int (length rest), timestamp = t \<rparr> \<and>
      lockout_tracker (snd ?tail) ?k = None"
    by (rule calls_within [OF first(3) first(2) w len])
  have run_eq: "?run = (fst ?first # fst ?tail, snd ?tail)"
    by (simp add: Let_def)
  have run1: "fst ?run = replicate (length (t # rest)) True"
    using tail first(1) by (simp only: run_eq fst_conv length_Cons replicate_Suc)
  have "1 + int (length rest) = N" using N(2) ts by simp
  then have run2: "rate_limits (snd ?run) ?k = Some \<lparr> count = N, timestamp = t \<rparr>"
    using tail by (simp only: run_eq snd_conv)
  have run3: "lockout_tracker (snd ?run) ?k = None"
    using tail by (simp only: run_eq snd_conv)
  have ov: "t_over - t \<le> real_of_int period" using over ts by simp
  have gt: "N + 1 > N" by simp
  note ex = crl_exceed [OF run3 run2 ov gt]
  have ev: "\<exists>d. security_events (snd ?over) = security_events (snd ?run) @
                   [\<lparr> event_type = ''rate_limit_exceeded'', severity = ''high'',
                      event_user_id = None, details = d \<rparr>]"
    by (rule exI, rule ex(4))
  have exp1: "t_after - t_over \<ge> real_of_int period" using after(1) by simp
  have exp2: "t_after - timestamp \<lparr> count = N + 1, timestamp = t \<rparr> > real_of_int period"
    using after(2) ts by simp
  note en = crl_expired [OF ex(3) exp1 ex(2) exp2, of N]
  show ?thesis
    unfolding Let_def ts using run1 ex(1) ex(3) ev en by blast
qed

theorem check_rate_limit_window_witness:
  "fst (check_rate_limit_calls init_security [0, 1, 2] ''42'' ''payment'' 3 10) = [True, True, True] \<and>
   fst (check_rate_limit (snd (check_rate_limit_calls init_security [0, 1, 2] ''42'' ''payment'' 3 10))
          3 ''42'' ''payment'' 3 10) = False \<and>
   fst (check_rate_limit (snd (check_rate_limit
          (snd (check_rate_limit_calls init_security [0, 1, 2] ''42'' ''payment'' 3 10))
          3 ''42'' ''payment'' 3 10)) 14 ''42'' ''payment'' 3 10) = True"
proof -
  have a: "rate_limits init_security (rate_key ''42'' ''payment'') = None"
    "lockout_tracker init_security (rate_key ''42'' ''payment'') = None"
    by (simp_all add: init_security_def)
  have b: "[0, 1, 2 :: real] \<noteq> []" "int (length [0, 1, 2 :: real]) = 3"
    "\<forall>t\<in>set [0, 1, 2 :: real]. t - hd [0, 1, 2] \<le> real_of_int 10"
    "(3::real) - hd [0, 1, 2] \<le> real_of_int 10" "(14::real) - 3 \<ge> real_of_int 10"
    "(14::real) - hd [0, 1, 2] > real_of_int 10"
    by simp_all
  from check_rate_limit_window [OF a b] show ?thesis
    by (simp add: Let_def numeral_3_eq_3)
qed

text \<open>
  The claim as stated lets the call at exactly \<open>period\<close> after the lockout succeed. With
  \<open>max_attempts = 1\<close> and \<open>period = 10\<close>, two calls at time 0 lock the key at time 0; at
  time 10 the lockout has elapsed (\<open>10 - 0 < 10\<close> is false) and is deleted, but the
  counter's window has not expired (\<open>10 - 0 > 10\<close> is false), so the counter goes to 3
  and the call is rejected and locked again.
\<close>

theorem relock_at_boundary_counterexample:
  "fst (check_rate_limit init_security 0 ''42'' ''payment'' 1 10) = True \<and>
   fst (check_rate_limit (snd (check_rate_limit init_security 0 ''42'' ''payment'' 1 10))
          0 ''42'' ''payment'' 1 10) = False \<and>
   lockout_tracker (snd (check_rate_limit (snd (check_rate_limit init_security 0 ''42'' ''payment'' 1 10))
          0 ''42'' ''payment'' 1 10)) (rate_key ''42'' ''payment'') = Some 0 \<and>
   (10::real) - 0 \<ge> real_of_int 10 \<and>
   fst (check_rate_limit (snd (check_rate_limit (snd (check_rate_limit init_security 0 ''42'' ''payment'' 1 10))
          0 ''42'' ''payment'' 1 10)) 10 ''42'' ''payment'' 1 10) = False"
  by (simp add: check_rate_limit_def Let_def init_security_def rate_key_def log_security_event_def)

subsection \<open>Login\<close>

lemma auth_failed_step:
  assumes u: "users (db b) uid = Some u"
    and bad: "\<forall>s. \<not> fst (verify_password V s (att_text a) (password_hash u))"
  shows "\<exists>u'. users (db (snd (authenticate_existing_user M V b uid a))) uid = Some u' \<and>
           password_hash u' = password_hash u \<and>
           (if int (failed_login_attempts u) \<ge> M then failed_login_attempts u' = failed_login_attempts u
            else failed_login_attempts u' = failed_login_attempts u + 1)"
  using assms
  by (simp add: authenticate_existing_user_def Let_def update_user_row_def)


lemma login_attempts_failed:
  assumes "users (db b) uid = Some u"
    and "\<forall>a\<in>set atts. \<forall>s. \<not> fst (verify_password V s (att_text a) (password_hash u))"
  shows "\<exists>u'. users (db (login_attempts M V b uid atts)) uid = Some u' \<and>
           password_hash u' = password_hash u \<and>
           min (int (failed_login_attempts u) + int (length atts)) M
             \<le> int (failed_login_attempts u')"
  using assms
proof (induction atts arbitrary: b u)
  case Nil
  then show ?case by (simp add: login_attempts_def)
next
  case (Cons a atts)
  let ?b1 = "snd (authenticate_existing_user M V b uid a)"
  have bad: "\<forall>s. \<not> fst (verify_password V s (att_text a) (password_hash u))"
    using Cons.prems(2) by simp
  from auth_failed_step [OF Cons.prems(1) bad, of M]
  obtain u1 where u1: "users (db ?b1) uid = Some u1" "password_hash u1 = password_hash u"
      "if int (failed_login_attempts u) \<ge> M then failed_login_attempts u1 = failed_login_attempts u
       else failed_login_attempts u1 = failed_login_attempts u + 1"
    by blast
  have rest: "\<forall>a\<in>set atts. \<forall>s. \<not> fst (verify_password V s (att_text a) (password_hash u1))"
    using Cons.prems(2) u1(2) by simp
  from Cons.IH [OF u1(1) rest]
  obtain u' where u': "users (db (login_attempts M V ?b1 uid atts)) uid = Some u'"
      "password_hash u' = password_hash u1"
      "min (int (failed_login_attempts u1) + int (length atts)) M \<le> int (failed_login_attempts u')"
    by blast
  have step: "login_attempts M V b uid (a # atts) = login_attempts M V ?b1 uid atts"
    by (simp add: login_attempts_def)
  have "min (int (failed_login_attempts u) + int (length (a # atts))) M
          \<le> min (int (failed_login_attempts u1) + int (length atts)) M"
    using u1(3) by (auto split: if_splits)
  with u' u1(2) show ?case unfolding step by auto
qed

text \<open>
  Claim C6. With \<^verbatim>\<open>MAX_LOGIN_ATTEMPTS = 5\<close>: after five password messages for an existing
  account, none of which verifies against its stored hash, a sixth message is rejected
  with \<^verbatim>\<open>ACCOUNT_LOCKED\<close> whatever its text is, the bot is left as it was, and the
  password is not handed to \<^verbatim>\<open>verify_password\<close>.
\<close>

theorem sixth_login_attempt_locked:
  assumes "users (db b) uid = Some u"
    and "length atts = 5"
    and "\<forall>a\<in>set atts. \<forall>s. \<not> fst (verify_password V s (att_text a) (password_hash u))"
  shows "authenticate_existing_user 5 V (login_attempts 5 V b uid atts) uid sixth =
           (Inl (BotError ACCOUNT_LOCKED), login_attempts 5 V b uid atts) \<and>
         verified_passwords (snd (authenticate_existing_user 5 V
             (login_attempts 5 V b uid atts) uid sixth)) =
           verified_passwords (login_attempts 5 V b uid atts)"
proof -
  from login_attempts_failed [OF assms(1) assms(3), of 5]
  obtain u' where u': "users (db (login_attempts 5 V b uid atts)) uid = Some u'"
      "min (int (failed_login_attempts u) + int (length atts)) 5 \<le> int (failed_login_attempts u')"
    by blast
  have "5 \<le> int (failed_login_attempts u')" using u'(2) assms(2) by simp
  with u'(1) show ?thesis by (simp add: authenticate_existing_user_def)
qed

theorem sixth_login_attempt_locked_witness:
  "fst (authenticate_existing_user 5
          (\<lambda>h p. if p = ''Correct#Horse7'' then Verified False else VerifyMismatch 0.3)
          (login_attempts 5
             (\<lambda>h p. if p = ''Correct#Horse7'' then Verified False else VerifyMismatch 0.3)
             \<lparr> db = \<lparr> users = [7 \<mapsto> \<lparr> username = ''gordon'', password_hash = ''$argon2id$x'',
                       is_active = True, last_login = None, failed_login_attempts = 0,
                       mfa_secret = None, balance = 0 \<rparr>],
                     transactions = [], sessions = [], audit_log = [] \<rparr>,
               sec = init_security, verified_passwords = [] \<rparr>
             7
             (map (\<lambda>p. \<lparr> att_text = p, att_now = 100, att_session_id = ''s'', att_token = ''t'' \<rparr>)
                [''a'', ''b'', ''c'', ''d'', ''e'']))
          7 \<lparr> att_text = ''Correct#Horse7'', att_now = 200, att_session_id = ''s'', att_token = ''t'' \<rparr>)
     = Inl (BotError ACCOUNT_LOCKED) \<and>
   fst (verify_password
          (\<lambda>h p. if p = ''Correct#Horse7'' then Verified False else VerifyMismatch 0.3)
          init_security ''Correct#Horse7'' ''$argon2id$x'')"
proof -
  let ?V = "\<lambda>(h::string) p. if p = ''Correct#Horse7'' then Verified False else VerifyMismatch 0.3"
  let ?u = "\<lparr> username = ''gordon'', password_hash = ''$argon2id$x'',
                       is_active = True, last_login = None, failed_login_attempts = 0,
                       mfa_secret = None, balance = 0 \<rparr>"
  let ?b = "\<lparr> db = \<lparr> users = [7 \<mapsto> ?u],
                     transactions = [], sessions = [], audit_log = [] \<rparr>,
               sec = init_security, verified_passwords = [] \<rparr>"
  let ?atts = "map (\<lambda>p. \<lparr> att_text = p, att_now = 100, att_session_id = ''s'', att_token = ''t'' \<rparr>)
                [''a'', ''b'', ''c'', ''d'', ''e'']"
  have a: "users (db ?b) 7 = Some ?u" by simp
  have b: "length ?atts = 5" by simp
  have c: "\<forall>a\<in>set ?atts. \<forall>s. \<not> fst (verify_password ?V s (att_text a) (password_hash ?u))"
    by (simp add: verify_password_def)
  have d: "fst (verify_password ?V init_security ''Correct#Horse7'' ''$argon2id$x'')"
    by (simp add: verify_password_def)
  from sixth_login_attempt_locked [OF a b c] d show ?thesis by simp
qed

subsection \<open>Symmetric cipher\<close>

lemma toy_lib_sound: "crypto_lib_sound toy_lib"
  by (auto simp: crypto_lib_sound_def toy_lib_def toy_decrypt_def split: bytes.splits)

text \<open>
  Claim C7. With libraries that keep their promises (\<open>crypto_lib_sound\<close>): for every
  string \<open>t\<close> that has a UTF-8 encoding, of any length, \<^verbatim>\<open>encrypt_data\<close> returns a token and
  \<^verbatim>\<open>decrypt_data\<close> of that token returns \<open>t\<close> and logs nothing; and for every token that
  base64-decodes and on which the cipher raises \<^verbatim>\<open>InvalidToken\<close>, \<^verbatim>\<open>decrypt_data\<close> raises
  the \<^verbatim>\<open>SecurityException\<close> of the invalid token and appends the event
  \<^verbatim>\<open>decryption_failed\<close> with severity high.
\<close>

theorem encrypt_decrypt_roundtrip:
  assumes "crypto_lib_sound L"
  shows "(\<forall>t plain. utf8_encode L t = Inr plain \<longrightarrow>
            (\<exists>tok. encrypt_data L nonce (Text t) = Inr tok \<and>
                   decrypt_data L s tok = (Inr t, s))) \<and>
         (\<forall>tok ct. urlsafe_b64decode L tok = Inr ct \<and> cipher_suite_decrypt L ct = Inl InvalidToken \<longrightarrow>
            decrypt_data L s tok =
              (Inl (SecurityException DecryptionInvalidToken),
               log_security_event s ''decryption_failed'' ''Invalid token during decryption''
                 ''high'' None))"
proof (intro conjI allI impI)
  fix t plain
  assume enc: "utf8_encode L t = Inr plain"
  let ?ct = "cipher_suite_encrypt L nonce plain"
  from assms obtain tok where tok: "utf8_decode L (urlsafe_b64encode L ?ct) = Inr tok"
      "urlsafe_b64decode L tok = Inr ?ct"
    unfolding crypto_lib_sound_def by blast
  have dec: "cipher_suite_decrypt L ?ct = Inr plain"
    using assms unfolding crypto_lib_sound_def by blast
  have dec_text: "utf8_decode L plain = Inr t"
    using assms enc unfolding crypto_lib_sound_def by blast
  have "encrypt_data L nonce (Text t) = Inr tok"
    by (simp add: encrypt_data_def enc tok(1))
  moreover have "decrypt_data L s tok = (Inr t, s)"
    by (simp add: decrypt_data_def tok(2) dec dec_text)
  ultimately show "\<exists>tok. encrypt_data L nonce (Text t) = Inr tok \<and> decrypt_data L s tok = (Inr t, s)"
    by blast
next
  fix tok ct
  assume "urlsafe_b64decode L tok = Inr ct \<and> cipher_suite_decrypt L ct = Inl InvalidToken"
  then show "decrypt_data L s tok =
              (Inl (SecurityException DecryptionInvalidToken),
               log_security_event s ''decryption_failed'' ''Invalid token during decryption''
                 ''high'' None)"
    by (simp add: decrypt_data_def decrypt_handler_def)
qed

theorem encrypt_decrypt_roundtrip_witness:
  "encrypt_data toy_lib 0 (Text ''+79001234567'') = Inr ''F+79001234567'' \<and>
   decrypt_data toy_lib init_security ''F+79001234567'' = (Inr ''+79001234567'', init_security) \<and>
   fst (decrypt_data toy_lib init_security ''G+79001234567'') =
     Inl (SecurityException DecryptionInvalidToken) \<and>
   map severity (security_events (snd (decrypt_data toy_lib init_security ''G+79001234567''))) =
     [''high'']"
proof -
  have enc: "encrypt_data toy_lib 0 (Text ''+79001234567'') = Inr ''F+79001234567''"
    by (simp add: encrypt_data_def toy_lib_def)
  have e: "utf8_encode toy_lib ''+79001234567'' = Inr (Bytes ''+79001234567'')"
    by (simp add: toy_lib_def)
  have bad: "urlsafe_b64decode toy_lib ''G+79001234567'' = Inr (Bytes ''G+79001234567'') \<and>
      cipher_suite_decrypt toy_lib (Bytes ''G+79001234567'') = Inl InvalidToken"
    by (simp add: toy_lib_def toy_decrypt_def)
  note rt = encrypt_decrypt_roundtrip [OF toy_lib_sound, of 0 init_security]
  from rt e enc have "decrypt_data toy_lib init_security ''F+79001234567'' = (Inr ''+79001234567'', init_security)"
    by (metis Inr_inject)
  moreover from rt bad have "decrypt_data toy_lib init_security ''G+79001234567'' =
              (Inl (SecurityException DecryptionInvalidToken),
               log_security_event init_security ''decryption_failed'' ''Invalid token during decryption''
                 ''high'' None)"
    by blast
  ultimately show ?thesis using enc
    by (simp add: log_security_event_def init_security_def)
qed

subsection \<open>Configuration\<close>

lemma raises_VE_simps [simp]:
  "raises_ValueError (Inl (ValueError k))" "\<not> raises_ValueError (Inr x)"
  by (simp_all add: raises_ValueError_def)


















subsection \<open>Ledger\<close>

text \<open>
  Property X1.  Whatever the environment, the connection and the arguments, the transaction
  block of \<^verbatim>\<open>_process_withdraw_wallet\<close> ends in an exception and commits nothing: the method
  that it calls first does not exist.
\<close>

theorem process_withdraw_wallet_always_raises:
  "durable (snd (process_withdraw_wallet env now uid amt wallet c)) = durable c \<and>
   fst (process_withdraw_wallet env now uid amt wallet c) \<noteq> Inr tid"
  by (simp add: process_withdraw_wallet_def transaction_block_def create_withdrawal_def
        io_bind_def io_raise_def sql_begin_def sql_rollback_def)

text \<open>
  Claim C4 at the scenario that it names.  The user has 100.00 and withdraws 40.00 to a valid
  wallet. The handler raises \<^verbatim>\<open>AttributeError\<close> where it reads \<^verbatim>\<open>create_withdrawal\<close>, inside
  the transaction block, which is rolled back: the connection is as before, the balance is
  still 100.00 and there is no withdrawal row. The reconciliation an hour later finds nothing
  to do. The claim expects 60.00 and a \<^verbatim>\<open>processing\<close> row after the withdrawal.
\<close>

theorem withdrawal_never_debits:
  "process_withdraw_wallet demo_env 0 1 40 demo_wallet demo_connection =
     (Inl (AttributeError ''create_withdrawal''), demo_connection) \<and>
   task_check_pending_transactions demo_env 3601 demo_connection = (Inr (), demo_connection) \<and>
   map_option balance (users (live demo_connection) 1) = Some 100 \<and>
   transactions (live demo_connection) = []"
  by (simp add: process_withdraw_wallet_def transaction_block_def create_withdrawal_def
        io_bind_def io_raise_def io_return_def sql_begin_def sql_rollback_def
        task_check_pending_transactions_def stuck_transactions_def
        demo_env_def demo_connection_def demo_db_def demo_user_def)

lemma failed_credit_step:
  "snd (task_payment_processing failing_env 100 deposit_connection) =
     \<lparr> live = demo_db\<lparr> transactions := [deposit_row\<lparr> status := completed, completed_at := Some 100 \<rparr>] \<rparr>,
       durable = demo_db\<lparr> transactions := [deposit_row\<lparr> status := completed, completed_at := Some 100 \<rparr>] \<rparr>,
       in_transaction = True \<rparr>"
  by (simp add: task_payment_processing_def pending_payments_def process_payment_def
        check_payment_status_def io_try_def io_bind_def io_return_def io_raise_def
        update_transaction_status_def execute_def cursor_execute_def connection_commit_def
        set_transaction_status_def
        failing_env_def demo_env_def deposit_connection_def deposit_db_def deposit_row_def
        demo_db_def)

lemma credit_without_failure:
  "snd (task_payment_processing demo_env 100 deposit_connection) =
     \<lparr> live = \<lparr> users = [1 \<mapsto> demo_user\<lparr> balance := 150 \<rparr>],
                transactions = [deposit_row\<lparr> status := completed, completed_at := Some 100 \<rparr>],
                sessions = [], audit_log = [] \<rparr>,
       durable = \<lparr> users = [1 \<mapsto> demo_user\<lparr> balance := 150 \<rparr>],
                transactions = [deposit_row\<lparr> status := completed, completed_at := Some 100 \<rparr>],
                sessions = [], audit_log = [] \<rparr>,
       in_transaction = False \<rparr>"
  by (simp add: task_payment_processing_def pending_payments_def process_payment_def
        check_payment_status_def io_try_def io_bind_def io_return_def io_raise_def
        update_transaction_status_def execute_def cursor_execute_def connection_commit_def
        set_transaction_status_def add_balance_def send_message_def
        demo_env_def deposit_connection_def deposit_db_def deposit_row_def
        demo_db_def demo_user_def)

text \<open>
  Claim C1 at a deposit whose credit fails.  User 1 has 100.00 and a pending deposit of 50.00.
  When nothing fails, one turn of the payment loop leaves the row \<^verbatim>\<open>completed\<close> and the
  balance 150.00. When the statement that adds to the balance raises, the status
  \<^verbatim>\<open>completed\<close> has already been committed by a statement of its own: the durable tables
  hold the \<^verbatim>\<open>completed\<close> row and the balance 100.00, and a later turn in which nothing
  fails changes nothing, because it reads \<^verbatim>\<open>pending\<close> rows only. The claim expects the two
  writes to be one unit that is rolled back as a whole.
\<close>

theorem deposit_completed_without_credit:
  "map_option balance
     (users (durable (snd (task_payment_processing demo_env 100 deposit_connection))) 1) =
     Some 150 \<and>
   transactions (durable (snd (task_payment_processing failing_env 100 deposit_connection))) =
     [deposit_row\<lparr> status := completed, completed_at := Some 100 \<rparr>] \<and>
   map_option balance
     (users (durable (snd (task_payment_processing failing_env 100 deposit_connection))) 1) =
     Some 100 \<and>
   live (snd (task_payment_processing failing_env 100 deposit_connection)) =
     durable (snd (task_payment_processing failing_env 100 deposit_connection)) \<and>
   snd (task_payment_processing demo_env 400
          (snd (task_payment_processing failing_env 100 deposit_connection))) =
     snd (task_payment_processing failing_env 100 deposit_connection)"
  unfolding failed_credit_step credit_without_failure
  by (simp add: task_payment_processing_def pending_payments_def io_return_def
        deposit_row_def demo_db_def demo_user_def)

lemma ff_execute:
  assumes "fault_free env"
  shows "execute env a stmt c =
           (case stmt (live c) of
              Inl e \<Rightarrow> (Inl (BotError DATABASE_ERROR), c\<lparr> in_transaction := True \<rparr>)
            | Inr d \<Rightarrow> (Inr (), \<lparr> live = d, durable = d, in_transaction = False \<rparr>))"
  using assms
  by (simp add: execute_def cursor_execute_def connection_commit_def fault_free_def
        io_try_def io_bind_def io_raise_def split: sum.splits)

lemma ff_fail_stuck:
  assumes "fault_free env"
  shows "live (snd (fail_stuck env now tx c)) = fail_stuck_tables env now tx (live c)"
  unfolding fail_stuck_def update_transaction_status_def io_try_def io_bind_def io_return_def
    ff_execute [OF assms] fail_stuck_tables_def set_transaction_status_def add_balance_def
    mark_failed_def Let_def
  by (simp split: option.splits)

lemma ff_for_each_fail_stuck:
  assumes "fault_free env"
  shows "live (snd (for_each (fail_stuck env now) xs c)) =
           fold (fail_stuck_tables env now) xs (live c)"
proof (induction xs arbitrary: c)
  case Nil
  show ?case by (simp add: io_return_def)
next
  case (Cons x xs)
  have ok: "fst (fail_stuck env now x c) = Inr ()"
    by (simp add: fail_stuck_def io_try_def io_return_def split: prod.splits sum.splits)
  have "for_each (fail_stuck env now) (x # xs) c =
          for_each (fail_stuck env now) xs (snd (fail_stuck env now x c))"
    using ok by (cases "fail_stuck env now x c") (simp add: io_bind_def)
  then show ?case
    by (simp add: Cons.IH ff_fail_stuck [OF assms])
qed

lemma fold_fail_stuck_transactions:
  "transactions (fold (fail_stuck_tables env now) xs d) =
     map (\<lambda>r. if transaction_id r \<in> transaction_id ` set xs then mark_failed now r else r)
       (transactions d)"
proof (induction xs arbitrary: d)
  case Nil
  show ?case by simp
next
  case (Cons x xs)
  have step: "transactions (fail_stuck_tables env now x d) =
      map (\<lambda>r. if transaction_id r = transaction_id x then mark_failed now r else r) (transactions d)"
    by (simp add: fail_stuck_tables_def Let_def split: option.splits)
  have id: "transaction_id (mark_failed now r) = transaction_id r" for r
    by (simp add: mark_failed_def)
  have idem: "mark_failed now (mark_failed now r) = mark_failed now r" for r
    by (simp add: mark_failed_def)
  show ?case
    by (simp add: Cons.IH step id idem cong: map_cong)
qed

lemma fold_fail_stuck_users:
  assumes keep: "\<And>x y. 0 \<le> x \<Longrightarrow> 0 \<le> y \<Longrightarrow> 0 \<le> float_add env x y"
    and "\<forall>x \<in> set xs. 0 < amount x"
    and "\<forall>uid u. users d uid = Some u \<longrightarrow> 0 \<le> balance u"
  shows "users (fold (fail_stuck_tables env now) xs d) uid =
     map_option (\<lambda>u. u\<lparr> balance := foldl (float_add env) (balance u)
         (map amount (filter (\<lambda>r. tx_type r = withdrawal \<and> tx_user_id r = uid) xs)) \<rparr>)
       (users d uid)"
  using assms(2,3)
proof (induction xs arbitrary: d)
  case Nil
  show ?case by (cases "users d uid") simp_all
next
  case (Cons x xs)
  let ?d1 = "fail_stuck_tables env now x d"
  have pos: "0 < amount x" using Cons.prems(1) by simp
  have nonneg: "0 \<le> balance u" if "users d v = Some u" for v u
    using Cons.prems(2) that by blast
  have users1: "users ?d1 =
      (if tx_type x = withdrawal then
         (case users d (tx_user_id x) of
            None \<Rightarrow> users d
          | Some u \<Rightarrow> (users d)(tx_user_id x \<mapsto> u\<lparr> balance := float_add env (balance u) (amount x) \<rparr>))
       else users d)"
  proof (cases "users d (tx_user_id x)")
    case None
    then show ?thesis by (simp add: fail_stuck_tables_def Let_def)
  next
    case (Some u)
    have "0 \<le> float_add env (balance u) (amount x)"
      using keep [of "balance u" "amount x"] pos nonneg [OF Some] by simp
    then have "\<not> float_add env (balance u) (amount x) < 0" by simp
    then show ?thesis using Some by (simp add: fail_stuck_tables_def Let_def)
  qed
  have inv1: "\<forall>v u. users ?d1 v = Some u \<longrightarrow> 0 \<le> balance u"
  proof (intro allI impI)
    fix v u assume vu: "users ?d1 v = Some u"
    show "0 \<le> balance u"
    proof (cases "tx_type x = withdrawal \<and> v = tx_user_id x")
      case True
      then obtain u0 where u0: "users d (tx_user_id x) = Some u0"
        using vu unfolding users1 by (cases "users d (tx_user_id x)") auto
      then have "u = u0\<lparr> balance := float_add env (balance u0) (amount x) \<rparr>"
        using vu True unfolding users1 by simp
      then show ?thesis
        using keep [of "balance u0" "amount x"] pos nonneg [OF u0] by simp
    next
      case False
      then have "users d v = Some u"
        using vu unfolding users1 by (auto split: option.splits if_splits)
      then show ?thesis by (rule nonneg)
    qed
  qed
  have "users (fold (fail_stuck_tables env now) xs ?d1) uid =
     map_option (\<lambda>u. u\<lparr> balance := foldl (float_add env) (balance u)
         (map amount (filter (\<lambda>r. tx_type r = withdrawal \<and> tx_user_id r = uid) xs)) \<rparr>)
       (users ?d1 uid)"
    using Cons.IH [of ?d1] Cons.prems(1) inv1 by simp
  then show ?case
    unfolding users1
    by (cases "users d uid"; cases "users d (tx_user_id x)")
       (auto split: option.splits)
qed

text \<open>
  Property X2.  One turn of the reconciliation loop in which no action raises, on tables whose
  amounts are positive and whose balances are not negative, with a float addition that keeps
  sums of non-negative numbers non-negative: every row that shares its id with a row that is
  \<^verbatim>\<open>pending\<close> or \<^verbatim>\<open>processing\<close> and older than an hour is marked \<^verbatim>\<open>failed\<close>, every other row
  is as before, and each user's balance is the float sum of the old balance and the amounts
  of the user's stuck withdrawals, added one after the other in the order of the rows.
\<close>

theorem reconciliation_fails_stuck_rows:
  assumes ff: "fault_free env"
    and keep: "\<forall>x y. 0 \<le> x \<and> 0 \<le> y \<longrightarrow> 0 \<le> float_add env x y"
    and pos: "\<forall>r \<in> set (transactions (live c)). 0 < amount r"
    and nonneg: "\<forall>uid u. users (live c) uid = Some u \<longrightarrow> 0 \<le> balance u"
  shows
    "transactions (live (snd (task_check_pending_transactions env now c))) =
       map (\<lambda>r. if transaction_id r \<in> transaction_id ` set (stuck_transactions now (live c))
                 then mark_failed now r else r)
         (transactions (live c)) \<and>
     users (live (snd (task_check_pending_transactions env now c))) uid =
       map_option
         (\<lambda>u. u\<lparr> balance := foldl (float_add env) (balance u) (refunds now (live c) uid) \<rparr>)
         (users (live c) uid)"
proof -
  let ?stuck = "stuck_transactions now (live c)"
  have live2: "live (snd (task_check_pending_transactions env now c)) =
      fold (fail_stuck_tables env now) ?stuck (live c)"
    unfolding task_check_pending_transactions_def by (rule ff_for_each_fail_stuck [OF ff])
  have pos': "\<forall>x \<in> set ?stuck. 0 < amount x"
    using pos by (simp add: stuck_transactions_def)
  have keep': "0 \<le> float_add env x y" if "0 \<le> x" "0 \<le> y" for x y
    using keep that by blast
  show ?thesis
    unfolding live2 refunds_def
    using fold_fail_stuck_transactions [of env now ?stuck "live c"]
      fold_fail_stuck_users [OF keep' pos' nonneg, of now uid]
    by simp
qed

text \<open>
  On the tables with the stuck withdrawal of 40.00 and the balance 60.00: the row is
  \<^verbatim>\<open>failed\<close> and the balance is 100.00.
\<close>

theorem reconciliation_fails_stuck_rows_witness:
  "map (\<lambda>r. (transaction_id r, status r, amount r))
     (transactions (live (snd (task_check_pending_transactions demo_env 3601 stuck_connection)))) =
     [(''wd_1'', failed, 40)] \<and>
   map_option balance
     (users (live (snd (task_check_pending_transactions demo_env 3601 stuck_connection))) 1) =
     Some 100"
proof -
  have ff: "fault_free demo_env" by (simp add: fault_free_def demo_env_def)
  have keep: "\<forall>x y. 0 \<le> x \<and> 0 \<le> y \<longrightarrow> 0 \<le> float_add demo_env x y"
    by (simp add: demo_env_def)
  have pos: "\<forall>r \<in> set (transactions (live stuck_connection)). 0 < amount r"
    by (simp add: stuck_connection_def stuck_db_def)
  have nonneg: "\<forall>uid u. users (live stuck_connection) uid = Some u \<longrightarrow> 0 \<le> balance u"
    by (simp add: stuck_connection_def stuck_db_def demo_user_def)
  have stuck: "stuck_transactions 3601 (live stuck_connection) = transactions (live stuck_connection)"
    by (simp add: stuck_transactions_def is_stuck_def stuck_connection_def stuck_db_def)
  show ?thesis
    using reconciliation_fails_stuck_rows [OF ff keep pos nonneg, of 3601 1]
    unfolding refunds_def stuck
    by (simp add: stuck_connection_def stuck_db_def mark_failed_def demo_env_def demo_user_def)
qed

end
